theory Spec2Isabelle
  imports Main "HOL-Library.AList" "HOL-Library.Word"
begin

section \<open>The dialect layer (second part of the source file)\<close>

text \<open>
  The second half of the source file registers the DAPHNE dialect and defines four
  member functions: \<^verbatim>\<open>DaphneDialect::materializeConstant\<close>,
  \<^verbatim>\<open>DaphneDialect::parseType\<close>, \<^verbatim>\<open>DaphneDialect::printType\<close> and
  \<^verbatim>\<open>ConstantOp::fold\<close>. They are embedded here one by one. Handles of the IR
  library (types, attributes, values, operations) become datatypes; the builder, the
  assembly printer and the IR itself are passed and returned explicitly.
\<close>

subsection \<open>Types\<close>

datatype ScalarKind = SignedInt | UnsignedInt | FloatingPoint | Boolean | Str

text \<open>
  Modelled from the spec: the declaration of \<^verbatim>\<open>mlir::daphne::MatrixType\<close> is generated
  from a table that is not part of the source file. The specification describes a matrix
  type by a row count, a column count and an element kind, each of them possibly unknown;
  the constructor \<open>MatrixType\<close> carries these three parameters (\<open>None\<close> is "unknown").

  \<open>IntegerType\<close> is the handle that the expression \<^verbatim>\<open>mlir::IntegerType()\<close> builds: the
  default-constructed integer type, with no width and no signedness given. \<open>ScalarType\<close>
  and \<open>UnknownTy\<close> are the remaining value types of the specification.
\<close>

datatype Type =
    IntegerType
  | MatrixType "nat option" "nat option" "ScalarKind option"
  | ScalarType ScalarKind
  | UnknownTy

text \<open>\<^verbatim>\<open>type.isa<mlir::daphne::MatrixType>()\<close>\<close>

fun isa_MatrixType :: "Type \<Rightarrow> bool" where
  "isa_MatrixType (MatrixType r c k) = True"
| "isa_MatrixType t = False"

subsection \<open>Errors\<close>

text \<open>
  The error kinds of the specification. None of the four functions of the source file
  raises one of them; the type is shared with the lowering engine below.
\<close>

datatype error =
    UnknownVariable
  | UnknownArgument
  | UnknownFunction
  | ArityMismatch
  | AssignmentArityMismatch
  | NoMatchingOverload
  | NonConstantArgument
  | TypeError
  | UnknownType

subsection \<open>Parsing and printing a type\<close>

text \<open>
  \<^verbatim>\<open>DialectAsmParser\<close> holds the text that is still to be read; \<^verbatim>\<open>DialectAsmPrinter\<close>
  holds the text written so far, and \<^verbatim>\<open>os << "Matrix"\<close> appends to it.
\<close>

type_synonym DialectAsmParser = string

type_synonym DialectAsmPrinter = string

text \<open>
  \<^verbatim>\<open>mlir::Type parseType(mlir::DialectAsmParser &parser) const { return mlir::IntegerType(); }\<close>

  The body never reads \<open>parser\<close> and has no statement that raises, so the result is
  always on the \<open>Inr\<close> side.
\<close>

definition parseType :: "DialectAsmParser \<Rightarrow> error + Type" where
  "parseType parser = Inr IntegerType"

text \<open>
  \<^verbatim>\<open>void printType(mlir::Type type, mlir::DialectAsmPrinter &os) const\<close>:
  \<^verbatim>\<open>if (type.isa<mlir::daphne::MatrixType>()) os << "Matrix";\<close>
\<close>

definition printType :: "Type \<Rightarrow> DialectAsmPrinter \<Rightarrow> DialectAsmPrinter" where
  "printType type os = (if isa_MatrixType type then os @ ''Matrix'' else os)"

subsection \<open>Attributes, values and operations\<close>

text \<open>An SSA value: the number of its definition point and its static type.\<close>

datatype Value = Value (vid: nat) (vtype: Type)

text \<open>
  An attribute is a compile-time constant. A floating-point constant is kept as its
  64-bit pattern and is never computed with. The last two constructors are metadata of
  the lowering engine: which axes an indexing operation selects on, and the condition
  value that tells a merge operation which control path was taken.
\<close>

datatype Attribute =
    IntegerAttr int
  | FloatAttr "64 word"
  | BoolAttr bool
  | StringAttr string
  | AxesAttr bool bool
  | PathOriginAttr Value

type_synonym Location = nat

text \<open>
  An operation: its name, its operands, the values it defines, its attribute (if it
  carries one) and its source location.
\<close>

datatype Operation =
  Operation (opName: string) (operands: "Value list") (results: "Value list")
    (attribute: "Attribute option") (location: Location)

text \<open>
  The builder appends operations to the block it points into and numbers the values
  they define.
\<close>

record OpBuilder =
  block :: "Operation list"
  nextValue :: nat

text \<open>
  \<^verbatim>\<open>builder.create<Op>(loc, ...)\<close>: builds the operation, gives each result a fresh value,
  inserts the operation at the end of the block and returns a handle to it. The handle
  is the operation's position in the block.
\<close>

definition freshValues :: "nat \<Rightarrow> Type list \<Rightarrow> Value list" where
  "freshValues n tys = map (\<lambda>(i, ty). Value (n + i) ty) (enumerate 0 tys)"

definition create ::
  "string \<Rightarrow> Value list \<Rightarrow> Type list \<Rightarrow> Attribute option \<Rightarrow> Location \<Rightarrow> OpBuilder
    \<Rightarrow> nat \<times> OpBuilder" where
  "create name vs tys att loc builder =
     (length (block builder),
      builder\<lparr>block := block builder @
                 [Operation name vs (freshValues (nextValue builder) tys) att loc],
              nextValue := nextValue builder + length tys\<rparr>)"

definition constantOpName :: string where
  "constantOpName = ''daphne.constant''"

text \<open>
  \<^verbatim>\<open>builder.create<mlir::daphne::ConstantOp>(loc, type, value)\<close>. The call hands over a
  result type and an attribute and no operand value, so the operation is built with an
  empty operand list.
\<close>

definition create_ConstantOp :: "Location \<Rightarrow> Type \<Rightarrow> Attribute \<Rightarrow> OpBuilder \<Rightarrow> nat \<times> OpBuilder" where
  "create_ConstantOp loc type v builder = create constantOpName [] [type] (Some v) loc builder"

text \<open>
  \<^verbatim>\<open>Operation *materializeConstant(OpBuilder &builder, Attribute value, Type type, Location loc)\<close>
\<close>

definition materializeConstant ::
  "OpBuilder \<Rightarrow> Attribute \<Rightarrow> Type \<Rightarrow> Location \<Rightarrow> nat \<times> OpBuilder" where
  "materializeConstant builder v type loc = create_ConstantOp loc type v builder"

subsection \<open>Folding a constant\<close>

text \<open>\<^verbatim>\<open>getValue()\<close>: the attribute the constant operation carries.\<close>

definition getValue :: "Operation \<Rightarrow> Attribute option" where
  "getValue op = attribute op"

text \<open>
  \<^verbatim>\<open>OpFoldResult ConstantOp::fold(ArrayRef<Attribute> operands)\<close>:
  \<^verbatim>\<open>assert(operands.empty() && "constant has no operands"); return getValue();\<close>

  The function is a member of the operation handle \<open>this\<close>, which points into the IR
  \<open>ir\<close>. A failed assertion aborts the program: the result is \<open>Inl\<close> with the assertion's
  message. Otherwise the function returns the folded attribute together with the IR as
  it leaves it.
\<close>

definition ConstantOp_fold ::
  "Operation list \<Rightarrow> nat \<Rightarrow> Attribute option list
    \<Rightarrow> string + (Attribute option \<times> Operation list)" where
  "ConstantOp_fold ir this ops =
     (if ops = [] then Inr (getValue (ir ! this), ir)
      else Inl ''constant has no operands'')"

text \<open>
  The folding driver of the IR library calls \<open>fold\<close> with one entry per operand of the
  operation: the operand's constant value where it is known (\<open>consts\<close>), the null
  attribute otherwise.
\<close>

definition foldOperands :: "(Value \<Rightarrow> Attribute option) \<Rightarrow> Operation \<Rightarrow> Attribute option list" where
  "foldOperands consts op = map consts (operands op)"

section \<open>The lowering engine (first part of the source file)\<close>

text \<open>
  The first half of the source file declares the class \<^verbatim>\<open>DaphneDSLVisitor\<close>: its members
  \<^verbatim>\<open>builder\<close>, \<^verbatim>\<open>symbolTable\<close>, \<^verbatim>\<open>utils\<close>, \<^verbatim>\<open>builtins\<close> and \<^verbatim>\<open>args\<close>, and one visit function
  per kind of syntax node. The bodies of the visit functions and the classes
  \<^verbatim>\<open>ScopedSymbolTable\<close> and \<^verbatim>\<open>DaphneDSLBuiltins\<close> are defined in other files of the
  repository. The syntax tree below has one constructor per declared visit function;
  what each function does is modelled from the specification.
\<close>

subsection \<open>The scoped symbol table\<close>

text \<open>
  Modelled from the spec: the class \<^verbatim>\<open>ScopedSymbolTable\<close> is only used, not defined, in
  the source file. Section 4.1 of the specification gives its contract: a stack of frames,
  innermost first, each mapping variable names to the value bound most recently.
\<close>

type_synonym Frame = "(string \<times> Value) list"

type_synonym ScopedSymbolTable = "Frame list"

text \<open>
  Modelled from the spec: \<open>pushScope()\<close> opens a new innermost scope with no bindings,
  \<open>popScope()\<close> discards the innermost scope with the bindings made in it.
\<close>

definition pushScope :: "ScopedSymbolTable \<Rightarrow> ScopedSymbolTable" where
  "pushScope st = [] # st"

fun popScope :: "ScopedSymbolTable \<Rightarrow> ScopedSymbolTable" where
  "popScope [] = []"
| "popScope (f # fs) = fs"

text \<open>
  Modelled from the spec: \<open>declare(name, value)\<close> binds the name in the innermost scope and
  overwrites a binding that scope already has. A table without any scope gets one.
\<close>

fun declareVar :: "string \<Rightarrow> Value \<Rightarrow> ScopedSymbolTable \<Rightarrow> ScopedSymbolTable" where
  "declareVar n v [] = [[(n, v)]]"
| "declareVar n v (f # fs) = AList.update n v f # fs"

text \<open>
  Modelled from the spec: \<open>lookup(name)\<close> searches the scopes from the innermost to the
  outermost and fails with \<open>UnknownVariable\<close> when no scope binds the name.
\<close>

fun lookup :: "string \<Rightarrow> ScopedSymbolTable \<Rightarrow> error + Value" where
  "lookup n [] = Inl UnknownVariable"
| "lookup n (f # fs) = (case map_of f n of Some v \<Rightarrow> Inr v | None \<Rightarrow> lookup n fs)"

text \<open>
  Modelled from the spec: \<open>currentScopeBindings()\<close> returns the bindings of the innermost
  scope.
\<close>

fun currentScopeBindings :: "ScopedSymbolTable \<Rightarrow> Frame" where
  "currentScopeBindings [] = []"
| "currentScopeBindings (f # fs) = f"

text \<open>Several declarations, from left to right.\<close>

fun declareAll :: "(string \<times> Value) list \<Rightarrow> ScopedSymbolTable \<Rightarrow> ScopedSymbolTable" where
  "declareAll [] st = st"
| "declareAll ((n, v) # bs) st = declareAll bs (declareVar n v st)"

subsection \<open>The visitor's state\<close>

text \<open>
  Modelled from the spec: the class \<^verbatim>\<open>DaphneDSLBuiltins\<close> is only used in the source file.
  Section 4.3 of the specification describes a built-in by the number of arguments it
  takes (\<open>None\<close>: any number), the argument positions that must be compile-time
  constants, and a type-directed choice of the operation to emit: from the argument
  types and the explicit type arguments to the operation's name and result types
  (\<open>None\<close>: no overload matches).
\<close>

record Builtin =
  arity :: "nat option"
  constantArgs :: "nat list"
  overload :: "Type list \<Rightarrow> Type list \<Rightarrow> (string \<times> Type list) option"

text \<open>
  The members of \<^verbatim>\<open>DaphneDSLVisitor\<close>, as the class declares them: the builder, the
  symbol table, the built-ins (a table from call names to built-ins) and
  \<^verbatim>\<open>std::unordered_map<std::string, std::string> args\<close>, which maps the name of an argument
  of the script to its text. The member \<^verbatim>\<open>utils\<close> has no state of its own.
\<close>

record DaphneDSLVisitor =
  builder :: OpBuilder
  symbolTable :: ScopedSymbolTable
  builtins :: "string \<Rightarrow> Builtin option"
  args :: "string \<rightharpoonup> string"

text \<open>
  Appending one operation with the builder and handing back the values it defines. A
  constant is appended by \<open>materializeConstant\<close>.
\<close>

definition emit ::
  "string \<Rightarrow> Value list \<Rightarrow> Type list \<Rightarrow> Attribute option \<Rightarrow> DaphneDSLVisitor
    \<Rightarrow> Value list \<times> DaphneDSLVisitor" where
  "emit name vs tys att vis =
     (case create name vs tys att 0 (builder vis) of
        (h, b) \<Rightarrow> (results (block b ! h), vis\<lparr>builder := b\<rparr>))"

definition emitConstant :: "Attribute \<Rightarrow> Type \<Rightarrow> DaphneDSLVisitor \<Rightarrow> Value list \<times> DaphneDSLVisitor" where
  "emitConstant att ty vis =
     (case materializeConstant (builder vis) att ty 0 of
        (h, b) \<Rightarrow> (results (block b ! h), vis\<lparr>builder := b\<rparr>))"

text \<open>Entering a block: a scope is pushed.\<close>

definition openScope :: "DaphneDSLVisitor \<Rightarrow> DaphneDSLVisitor" where
  "openScope vis = vis\<lparr>symbolTable := pushScope (symbolTable vis)\<rparr>"

text \<open>
  Leaving a block: the bindings of the innermost scope are read off, then the scope is
  popped. An error inside the block is passed on.
\<close>

definition closeScope :: "error + DaphneDSLVisitor \<Rightarrow> error + (Frame \<times> DaphneDSLVisitor)" where
  "closeScope r =
     (case r of
        Inl x \<Rightarrow> Inl x
      | Inr vis \<Rightarrow> Inr (currentScopeBindings (symbolTable vis),
                         vis\<lparr>symbolTable := popScope (symbolTable vis)\<rparr>))"

text \<open>Binding names to values, position by position, in the innermost scope.\<close>

definition bindAll :: "string list \<Rightarrow> Value list \<Rightarrow> DaphneDSLVisitor \<Rightarrow> DaphneDSLVisitor" where
  "bindAll ns vs vis = vis\<lparr>symbolTable := declareAll (zip ns vs) (symbolTable vis)\<rparr>"

subsection \<open>The built-in function resolver\<close>

text \<open>
  Modelled from the spec: an argument is known at compile time when a constant operation
  of the block defines it.
\<close>

definition isConstantValue :: "OpBuilder \<Rightarrow> Value \<Rightarrow> bool" where
  "isConstantValue b v = list_ex (\<lambda>op. opName op = constantOpName \<and> v \<in> set (results op)) (block b)"

text \<open>
  Modelled from the spec (section 4.3): look the name up, check the arity, check the
  arguments that must be constants, choose the overload by the argument types, emit the
  operation.
\<close>

definition resolve ::
  "string \<Rightarrow> Value list \<Rightarrow> Type list \<Rightarrow> DaphneDSLVisitor
    \<Rightarrow> error + (Value list \<times> DaphneDSLVisitor)" where
  "resolve name vs tys vis =
     (case builtins vis name of
        None \<Rightarrow> Inl UnknownFunction
      | Some b \<Rightarrow>
          if (case arity b of None \<Rightarrow> False | Some n \<Rightarrow> n \<noteq> length vs) then Inl ArityMismatch
          else if \<not> list_all (\<lambda>i. i < length vs \<and> isConstantValue (builder vis) (vs ! i))
                     (constantArgs b)
          then Inl NonConstantArgument
          else (case overload b (map vtype vs) tys of
                  None \<Rightarrow> Inl NoMatchingOverload
                | Some (opn, rtys) \<Rightarrow> Inr (emit opn vs rtys None vis)))"

subsection \<open>The syntax tree\<close>

text \<open>
  One constructor per visit function of the class. The operator of a multiplicative,
  additive or comparison node is kept with the node.
\<close>

datatype Literal = IntLiteral int | FloatLiteral "64 word" | StringLiteral string | BoolLiteral bool

datatype MulOp = MulTimes | MulDivide

datatype AddOp = AddPlus | AddMinus

datatype CmpOp = CmpEq | CmpNeq | CmpLt | CmpLe | CmpGt | CmpGe

datatype Expr =
    LiteralExpr Literal
  | ArgExpr string
  | IdentifierExpr string
  | ParanthesesExpr Expr
  | CallExpr string "string list" "Expr list"
  | CastExpr string Expr
  | RightIdxFilterExpr Expr "Expr option" "Expr option"
  | RightIdxExtractExpr Expr "Expr option" "Expr option"
  | MatmulExpr Expr Expr
  | PowExpr Expr Expr
  | ModExpr Expr Expr
  | MulExpr MulOp Expr Expr
  | AddExpr AddOp Expr Expr
  | CmpExpr CmpOp Expr Expr
  | ConjExpr Expr Expr
  | DisjExpr Expr Expr

datatype Statement =
    BlockStatement "Statement list"
  | ExprStatement Expr
  | AssignStatement "string list" Expr
  | IfStatement Expr Statement "Statement option"
  | WhileStatement Expr Statement
  | ForStatement string Expr Expr "Expr option" Statement

text \<open>
  Modelled from the spec: every operator has a canonical built-in name, under which the
  resolver finds it. The specification does not spell the names out; the proofs below do
  not depend on the spelling chosen here.
\<close>

fun mulBuiltin :: "MulOp \<Rightarrow> string" where
  "mulBuiltin MulTimes = ''mul''"
| "mulBuiltin MulDivide = ''div''"

fun addBuiltin :: "AddOp \<Rightarrow> string" where
  "addBuiltin AddPlus = ''add''"
| "addBuiltin AddMinus = ''sub''"

fun cmpBuiltin :: "CmpOp \<Rightarrow> string" where
  "cmpBuiltin CmpEq = ''eq''"
| "cmpBuiltin CmpNeq = ''neq''"
| "cmpBuiltin CmpLt = ''lt''"
| "cmpBuiltin CmpLe = ''le''"
| "cmpBuiltin CmpGt = ''gt''"
| "cmpBuiltin CmpGe = ''ge''"

subsection \<open>Lowering expressions\<close>

text \<open>
  Modelled from the spec: a literal becomes a constant of the literal's natural type,
  carrying the literal's value.
\<close>

fun literalAttr :: "Literal \<Rightarrow> Attribute" where
  "literalAttr (IntLiteral i) = IntegerAttr i"
| "literalAttr (FloatLiteral w) = FloatAttr w"
| "literalAttr (StringLiteral s) = StringAttr s"
| "literalAttr (BoolLiteral b) = BoolAttr b"

fun literalType :: "Literal \<Rightarrow> Type" where
  "literalType (IntLiteral i) = ScalarType SignedInt"
| "literalType (FloatLiteral w) = ScalarType FloatingPoint"
| "literalType (StringLiteral s) = ScalarType Str"
| "literalType (BoolLiteral b) = ScalarType Boolean"

text \<open>
  An operand is an expression that yields exactly one value; a call may yield several.
\<close>

definition asSingle ::
  "error + (Value list \<times> DaphneDSLVisitor) \<Rightarrow> error + (Value \<times> DaphneDSLVisitor)" where
  "asSingle r =
     (case r of
        Inl x \<Rightarrow> Inl x
      | Inr (vs, vis) \<Rightarrow> (case vs of [v] \<Rightarrow> Inr (v, vis) | _ \<Rightarrow> Inl ArityMismatch))"

text \<open>
  The explicit type arguments of a call and the target of a cast are type spellings; they
  are read by the dialect's \<open>parseType\<close>.
\<close>

fun parseTypes :: "string list \<Rightarrow> error + Type list" where
  "parseTypes [] = Inr []"
| "parseTypes (s # ss) =
     (case parseType s of
        Inl x \<Rightarrow> Inl x
      | Inr t \<Rightarrow> (case parseTypes ss of Inl x \<Rightarrow> Inl x | Inr ts \<Rightarrow> Inr (t # ts)))"

text \<open>The type of an indexing result: a matrix of the same element kind.\<close>

fun indexedType :: "Type \<Rightarrow> Type" where
  "indexedType (MatrixType r c k) = MatrixType None None k"
| "indexedType t = UnknownTy"

text \<open>
  Modelled from the spec (section 4.2): what each visit function for an expression does.
  Every function takes the visitor's state and returns the values of the expression with
  the new state, or the error that ends the traversal.
\<close>

fun visitExpr :: "Expr \<Rightarrow> DaphneDSLVisitor \<Rightarrow> error + (Value list \<times> DaphneDSLVisitor)"
  and visitExprs :: "Expr list \<Rightarrow> DaphneDSLVisitor \<Rightarrow> error + (Value list \<times> DaphneDSLVisitor)"
  and visitSelector :: "Expr option \<Rightarrow> DaphneDSLVisitor \<Rightarrow> error + (Value list \<times> DaphneDSLVisitor)"
where
  "visitExpr (LiteralExpr l) vis = Inr (emitConstant (literalAttr l) (literalType l) vis)"
| "visitExpr (ArgExpr a) vis =
     (case args vis a of
        None \<Rightarrow> Inl UnknownArgument
      | Some txt \<Rightarrow> Inr (emitConstant (StringAttr txt) (ScalarType Str) vis))"
| "visitExpr (IdentifierExpr n) vis =
     (case lookup n (symbolTable vis) of Inl x \<Rightarrow> Inl x | Inr v \<Rightarrow> Inr ([v], vis))"
| "visitExpr (ParanthesesExpr e) vis = visitExpr e vis"
| "visitExpr (CallExpr f tys es) vis =
     (case visitExprs es vis of
        Inl x \<Rightarrow> Inl x
      | Inr (vs, vis1) \<Rightarrow>
          (case parseTypes tys of Inl x \<Rightarrow> Inl x | Inr ts \<Rightarrow> resolve f vs ts vis1))"
| "visitExpr (CastExpr spelling e) vis =
     (case asSingle (visitExpr e vis) of
        Inl x \<Rightarrow> Inl x
      | Inr (v, vis1) \<Rightarrow>
          (case parseType spelling of
             Inl x \<Rightarrow> Inl x
           | Inr ty \<Rightarrow> Inr (emit ''cast'' [v] [ty] None vis1)))"
| "visitExpr (RightIdxFilterExpr m rows cols) vis =
     (case asSingle (visitExpr m vis) of
        Inl x \<Rightarrow> Inl x
      | Inr (v, vis1) \<Rightarrow>
          (case visitSelector rows vis1 of
             Inl x \<Rightarrow> Inl x
           | Inr (rs, vis2) \<Rightarrow>
               (case visitSelector cols vis2 of
                  Inl x \<Rightarrow> Inl x
                | Inr (cs, vis3) \<Rightarrow>
                    Inr (emit ''filter'' (v # rs @ cs) [indexedType (vtype v)]
                           (Some (AxesAttr (rs \<noteq> []) (cs \<noteq> []))) vis3))))"
| "visitExpr (RightIdxExtractExpr m rows cols) vis =
     (case asSingle (visitExpr m vis) of
        Inl x \<Rightarrow> Inl x
      | Inr (v, vis1) \<Rightarrow>
          (case visitSelector rows vis1 of
             Inl x \<Rightarrow> Inl x
           | Inr (rs, vis2) \<Rightarrow>
               (case visitSelector cols vis2 of
                  Inl x \<Rightarrow> Inl x
                | Inr (cs, vis3) \<Rightarrow>
                    Inr (emit ''extract'' (v # rs @ cs) [indexedType (vtype v)]
                           (Some (AxesAttr (rs \<noteq> []) (cs \<noteq> []))) vis3))))"
| "visitExpr (MatmulExpr l r) vis =
     (case asSingle (visitExpr l vis) of
        Inl x \<Rightarrow> Inl x
      | Inr (a, vis1) \<Rightarrow>
          (case asSingle (visitExpr r vis1) of
             Inl x \<Rightarrow> Inl x
           | Inr (b, vis2) \<Rightarrow> resolve ''matmul'' [a, b] [] vis2))"
| "visitExpr (PowExpr l r) vis =
     (case asSingle (visitExpr l vis) of
        Inl x \<Rightarrow> Inl x
      | Inr (a, vis1) \<Rightarrow>
          (case asSingle (visitExpr r vis1) of
             Inl x \<Rightarrow> Inl x
           | Inr (b, vis2) \<Rightarrow> resolve ''pow'' [a, b] [] vis2))"
| "visitExpr (ModExpr l r) vis =
     (case asSingle (visitExpr l vis) of
        Inl x \<Rightarrow> Inl x
      | Inr (a, vis1) \<Rightarrow>
          (case asSingle (visitExpr r vis1) of
             Inl x \<Rightarrow> Inl x
           | Inr (b, vis2) \<Rightarrow> resolve ''mod'' [a, b] [] vis2))"
| "visitExpr (MulExpr opr l r) vis =
     (case asSingle (visitExpr l vis) of
        Inl x \<Rightarrow> Inl x
      | Inr (a, vis1) \<Rightarrow>
          (case asSingle (visitExpr r vis1) of
             Inl x \<Rightarrow> Inl x
           | Inr (b, vis2) \<Rightarrow> resolve (mulBuiltin opr) [a, b] [] vis2))"
| "visitExpr (AddExpr opr l r) vis =
     (case asSingle (visitExpr l vis) of
        Inl x \<Rightarrow> Inl x
      | Inr (a, vis1) \<Rightarrow>
          (case asSingle (visitExpr r vis1) of
             Inl x \<Rightarrow> Inl x
           | Inr (b, vis2) \<Rightarrow> resolve (addBuiltin opr) [a, b] [] vis2))"
| "visitExpr (CmpExpr opr l r) vis =
     (case asSingle (visitExpr l vis) of
        Inl x \<Rightarrow> Inl x
      | Inr (a, vis1) \<Rightarrow>
          (case asSingle (visitExpr r vis1) of
             Inl x \<Rightarrow> Inl x
           | Inr (b, vis2) \<Rightarrow> resolve (cmpBuiltin opr) [a, b] [] vis2))"
| "visitExpr (ConjExpr l r) vis =
     (case asSingle (visitExpr l vis) of
        Inl x \<Rightarrow> Inl x
      | Inr (a, vis1) \<Rightarrow>
          (case asSingle (visitExpr r vis1) of
             Inl x \<Rightarrow> Inl x
           | Inr (b, vis2) \<Rightarrow> resolve ''and'' [a, b] [] vis2))"
| "visitExpr (DisjExpr l r) vis =
     (case asSingle (visitExpr l vis) of
        Inl x \<Rightarrow> Inl x
      | Inr (a, vis1) \<Rightarrow>
          (case asSingle (visitExpr r vis1) of
             Inl x \<Rightarrow> Inl x
           | Inr (b, vis2) \<Rightarrow> resolve ''or'' [a, b] [] vis2))"
| "visitExprs [] vis = Inr ([], vis)"
| "visitExprs (e # es) vis =
     (case asSingle (visitExpr e vis) of
        Inl x \<Rightarrow> Inl x
      | Inr (v, vis1) \<Rightarrow>
          (case visitExprs es vis1 of
             Inl x \<Rightarrow> Inl x
           | Inr (vs, vis2) \<Rightarrow> Inr (v # vs, vis2)))"
| "visitSelector None vis = Inr ([], vis)"
| "visitSelector (Some e) vis =
     (case asSingle (visitExpr e vis) of
        Inl x \<Rightarrow> Inl x
      | Inr (v, vis1) \<Rightarrow> Inr ([v], vis1))"

subsection \<open>Lowering statements\<close>

text \<open>
  Modelled from the spec: a condition must be boolean or coercible to boolean. The
  specification does not list the coercible types; here the numeric scalars and the
  type that is still unknown are, strings and matrices are not. A coercible condition is
  converted by a cast operation.
\<close>

fun booleanCoercible :: "Type \<Rightarrow> bool" where
  "booleanCoercible (ScalarType Str) = False"
| "booleanCoercible (ScalarType k) = True"
| "booleanCoercible IntegerType = True"
| "booleanCoercible UnknownTy = True"
| "booleanCoercible (MatrixType r c k) = False"

definition asCondition ::
  "error + (Value \<times> DaphneDSLVisitor) \<Rightarrow> error + (Value \<times> DaphneDSLVisitor)" where
  "asCondition r =
     (case r of
        Inl x \<Rightarrow> Inl x
      | Inr (v, vis) \<Rightarrow>
          if vtype v = ScalarType Boolean then Inr (v, vis)
          else if booleanCoercible (vtype v) then
            (case asSingle (Inr (emit ''cast'' [v] [ScalarType Boolean] None vis)) of
               Inl x \<Rightarrow> Inl x
             | Inr (c, vis1) \<Rightarrow> Inr (c, vis1))
          else Inl TypeError)"

text \<open>
  Modelled from the spec: the value a name has at the end of a branch is the branch's own
  binding if the branch rebound the name, and the binding visible in the enclosing scope
  otherwise.
\<close>

definition branchValue :: "Frame \<Rightarrow> string \<Rightarrow> ScopedSymbolTable \<Rightarrow> error + Value" where
  "branchValue ow n st = (case map_of ow n of Some v \<Rightarrow> Inr v | None \<Rightarrow> lookup n st)"

text \<open>
  Modelled from the spec: after both branches are closed, every name rebound in a branch
  gets a merge operation. Its two operands are the name's value at the end of the
  then-path and at the end of the else-path; its metadata is the condition. The name is
  rebound to the merge operation's result in the enclosing scope. A name that has no
  value on one of the two paths was introduced inside a branch: its binding is discarded
  with the branch's scope, and nothing is merged for it.
\<close>

definition mergeName ::
  "Value \<Rightarrow> Frame \<Rightarrow> Frame \<Rightarrow> string \<Rightarrow> DaphneDSLVisitor \<Rightarrow> DaphneDSLVisitor" where
  "mergeName cond owThen owElse n vis =
     (case branchValue owThen n (symbolTable vis) of
        Inl x \<Rightarrow> vis
      | Inr vt \<Rightarrow>
          (case branchValue owElse n (symbolTable vis) of
             Inl x \<Rightarrow> vis
           | Inr ve \<Rightarrow>
               (case emit ''merge'' [vt, ve] [vtype vt] (Some (PathOriginAttr cond)) vis of
                  (ms, vis1) \<Rightarrow> bindAll [n] ms vis1)))"

fun mergeBranches ::
  "Value \<Rightarrow> Frame \<Rightarrow> Frame \<Rightarrow> string list \<Rightarrow> DaphneDSLVisitor \<Rightarrow> DaphneDSLVisitor" where
  "mergeBranches cond owThen owElse [] vis = vis"
| "mergeBranches cond owThen owElse (n # ns) vis =
     mergeBranches cond owThen owElse ns (mergeName cond owThen owElse n vis)"

text \<open>
  Modelled from the spec: what a merge operation yields at run time is its first operand
  when the then-path was taken, and its second operand otherwise.
\<close>

definition mergeSelect :: "bool \<Rightarrow> Operation \<Rightarrow> Value list" where
  "mergeSelect thenTaken op = (if thenTaken then take 1 (operands op) else take 1 (drop 1 (operands op)))"

text \<open>
  Modelled from the spec: the names rebound in a loop body that were live before the loop
  are loop-carried. Each comes with its value before the loop and its value at the end
  of the body.
\<close>

fun loopCarried :: "Frame \<Rightarrow> ScopedSymbolTable \<Rightarrow> (string \<times> Value \<times> Value) list" where
  "loopCarried [] st = []"
| "loopCarried ((n, v) # ow) st =
     (case lookup n st of
        Inl x \<Rightarrow> loopCarried ow st
      | Inr v0 \<Rightarrow> (n, v0, v) # loopCarried ow st)"

text \<open>
  Modelled from the spec: the induction variable of a for loop is loop-carried too; it
  starts at the lower bound.
\<close>

fun forCarried :: "string \<Rightarrow> Value \<Rightarrow> Frame \<Rightarrow> ScopedSymbolTable \<Rightarrow> (string \<times> Value \<times> Value) list" where
  "forCarried i lb [] st = []"
| "forCarried i lb ((n, v) # ow) st =
     (if n = i then (n, lb, v) # forCarried i lb ow st
      else (case lookup n st of
              Inl x \<Rightarrow> forCarried i lb ow st
            | Inr v0 \<Rightarrow> (n, v0, v) # forCarried i lb ow st))"

text \<open>
  Modelled from the spec: the loop construct has its leading operands (the condition, or
  the bounds and the step), then the initial values and the end-of-body values of the
  loop-carried names. It has one result per loop-carried name, and the names are rebound
  to the results.
\<close>

definition emitLoop ::
  "string \<Rightarrow> Value list \<Rightarrow> Attribute option \<Rightarrow> (string \<times> Value \<times> Value) list
    \<Rightarrow> DaphneDSLVisitor \<Rightarrow> DaphneDSLVisitor" where
  "emitLoop name leading att carried vis =
     (case emit name (leading @ map (\<lambda>(n, v0, v). v0) carried @ map (\<lambda>(n, v0, v). v) carried)
             (map (\<lambda>(n, v0, v). vtype v0) carried) att vis of
        (rs, vis1) \<Rightarrow> bindAll (map fst carried) rs vis1)"

text \<open>
  Modelled from the spec: the direction of a for loop is known when the step is an integer
  constant of the block, and open otherwise.
\<close>

fun constantOf :: "Operation list \<Rightarrow> Value \<Rightarrow> Attribute option" where
  "constantOf [] v = None"
| "constantOf (op # ops) v =
     (if opName op = constantOpName \<and> v \<in> set (results op) then attribute op
      else constantOf ops v)"

definition stepDirection :: "OpBuilder \<Rightarrow> Value \<Rightarrow> string" where
  "stepDirection b s =
     (case constantOf (block b) s of
        Some (IntegerAttr k) \<Rightarrow> (if 0 \<le> k then ''ascending'' else ''descending'')
      | _ \<Rightarrow> ''both'')"

text \<open>Modelled from the spec: a for loop without a step expression steps by the constant 1.\<close>

definition defaultStep :: "DaphneDSLVisitor \<Rightarrow> error + (Value list \<times> DaphneDSLVisitor)" where
  "defaultStep vis = Inr (emitConstant (IntegerAttr 1) (ScalarType SignedInt) vis)"

text \<open>
  Modelled from the spec (section 4.2): what each visit function for a statement does.
\<close>

fun visitStatement :: "Statement \<Rightarrow> DaphneDSLVisitor \<Rightarrow> error + DaphneDSLVisitor"
  and visitStatements :: "Statement list \<Rightarrow> DaphneDSLVisitor \<Rightarrow> error + DaphneDSLVisitor"
  and visitElse :: "Statement option \<Rightarrow> DaphneDSLVisitor \<Rightarrow> error + (Frame \<times> DaphneDSLVisitor)"
where
  "visitStatement (BlockStatement ss) vis = visitStatements ss vis"
| "visitStatement (ExprStatement e) vis =
     (case visitExpr e vis of Inl x \<Rightarrow> Inl x | Inr (vs, vis1) \<Rightarrow> Inr vis1)"
| "visitStatement (AssignStatement ns e) vis =
     (case visitExpr e vis of
        Inl x \<Rightarrow> Inl x
      | Inr (vs, vis1) \<Rightarrow>
          if length ns \<noteq> length vs then Inl AssignmentArityMismatch
          else Inr (bindAll ns vs vis1))"
| "visitStatement (IfStatement c t e) vis =
     (case asCondition (asSingle (visitExpr c vis)) of
        Inl x \<Rightarrow> Inl x
      | Inr (cond, vis1) \<Rightarrow>
          (case closeScope (visitStatement t (openScope vis1)) of
             Inl x \<Rightarrow> Inl x
           | Inr (owThen, vis2) \<Rightarrow>
               (case visitElse e vis2 of
                  Inl x \<Rightarrow> Inl x
                | Inr (owElse, vis3) \<Rightarrow>
                    Inr (mergeBranches cond owThen owElse
                           (remdups (map fst owThen @ map fst owElse)) vis3))))"
| "visitStatement (WhileStatement c body) vis =
     (case asCondition (asSingle (visitExpr c vis)) of
        Inl x \<Rightarrow> Inl x
      | Inr (cond, vis1) \<Rightarrow>
          (case closeScope (visitStatement body (openScope vis1)) of
             Inl x \<Rightarrow> Inl x
           | Inr (ow, vis2) \<Rightarrow>
               Inr (emitLoop ''while'' [cond] None (loopCarried ow (symbolTable vis2)) vis2)))"
| "visitStatement (ForStatement i lower upper step body) vis =
     (case asSingle (visitExpr lower vis) of
        Inl x \<Rightarrow> Inl x
      | Inr (lb, vis1) \<Rightarrow>
          (case asSingle (visitExpr upper vis1) of
             Inl x \<Rightarrow> Inl x
           | Inr (ub, vis2) \<Rightarrow>
               (case asSingle (case step of None \<Rightarrow> defaultStep vis2 | Some e \<Rightarrow> visitExpr e vis2) of
                  Inl x \<Rightarrow> Inl x
                | Inr (st, vis3) \<Rightarrow>
                    (case closeScope (visitStatement body (bindAll [i] [lb] (openScope vis3))) of
                       Inl x \<Rightarrow> Inl x
                     | Inr (ow, vis4) \<Rightarrow>
                         Inr (emitLoop ''for'' [lb, ub, st]
                                (Some (StringAttr (stepDirection (builder vis4) st)))
                                (forCarried i lb ow (symbolTable vis4)) vis4)))))"
| "visitStatements [] vis = Inr vis"
| "visitStatements (s # ss) vis =
     (case visitStatement s vis of Inl x \<Rightarrow> Inl x | Inr vis1 \<Rightarrow> visitStatements ss vis1)"
| "visitElse None vis = Inr ([], vis)"
| "visitElse (Some s) vis = closeScope (visitStatement s (openScope vis))"

text \<open>
  \<^verbatim>\<open>visitScript\<close>: the statements of the script, in order. A fresh visitor has an empty
  block and one empty scope; its built-ins and arguments are given at construction.
\<close>

definition visitScript :: "Statement list \<Rightarrow> DaphneDSLVisitor \<Rightarrow> error + DaphneDSLVisitor" where
  "visitScript ss vis = visitStatements ss vis"

definition newVisitor :: "(string \<Rightarrow> Builtin option) \<Rightarrow> (string \<rightharpoonup> string) \<Rightarrow> DaphneDSLVisitor" where
  "newVisitor tbl as =
     \<lparr>builder = \<lparr>block = [], nextValue = 0\<rparr>, symbolTable = [[]], builtins = tbl, args = as\<rparr>"

subsection \<open>Notions used to state the properties\<close>

text \<open>
  An expression leaves the scopes, the built-ins and the arguments alone and only appends
  operations to the block.
\<close>

definition appended :: "DaphneDSLVisitor \<Rightarrow> DaphneDSLVisitor \<Rightarrow> bool" where
  "appended vis vis' =
     (symbolTable vis' = symbolTable vis \<and> builtins vis' = builtins vis \<and> args vis' = args vis
      \<and> (\<exists>ops. block (builder vis') = block (builder vis) @ ops))"

text \<open>
  A small table of built-ins, used to run the lowering on concrete scripts: addition of
  two scalars of the same kind, and the two logical operations.
\<close>

definition exampleBuiltins :: "string \<Rightarrow> Builtin option" where
  "exampleBuiltins n =
     (if n = ''add'' then
        Some \<lparr>arity = Some 2, constantArgs = [],
              overload = (\<lambda>ts tas. case ts of
                  [ScalarType k, ScalarType k'] \<Rightarrow>
                    if k = k' then Some (''ewAdd'', [ScalarType k]) else None
                | _ \<Rightarrow> None)\<rparr>
      else if n = ''and'' then
        Some \<lparr>arity = Some 2, constantArgs = [],
              overload = (\<lambda>ts tas. Some (''ewAnd'', [ScalarType Boolean]))\<rparr>
      else if n = ''or'' then
        Some \<lparr>arity = Some 2, constantArgs = [],
              overload = (\<lambda>ts tas. Some (''ewOr'', [ScalarType Boolean]))\<rparr>
      else None)"

text \<open>The result of a lowering step, reduced to the values and the block.\<close>

definition emitted ::
  "error + (Value list \<times> DaphneDSLVisitor) \<Rightarrow> error + (Value list \<times> Operation list)" where
  "emitted r = (case r of Inl x \<Rightarrow> Inl x | Inr (vs, vis) \<Rightarrow> Inr (vs, block (builder vis)))"

text \<open>
  A statement changes only the innermost scope: the scopes around it are the same before
  and after.
\<close>

definition sameOuterScopes :: "DaphneDSLVisitor \<Rightarrow> DaphneDSLVisitor \<Rightarrow> bool" where
  "sameOuterScopes vis vis' =
     (\<exists>f f' fs. symbolTable vis = f # fs \<and> symbolTable vis' = f' # fs)"

text \<open>
  The state of a visitor after the statements \<^verbatim>\<open>x = 5; y = 6;\<close>, and the statement
  \<^verbatim>\<open>if (true) { x = 1; tmp = 3; } else { y = 2; }\<close>, which rebinds \<open>x\<close> in its then-branch
  only, rebinds \<open>y\<close> in its else-branch only, and introduces \<open>tmp\<close> inside a branch.
\<close>

definition exampleVisitor :: DaphneDSLVisitor where
  "exampleVisitor =
     \<lparr>builder = \<lparr>block = [Operation ''daphne.constant'' [] [Value 0 (ScalarType SignedInt)]
                              (Some (IntegerAttr 5)) 0,
                            Operation ''daphne.constant'' [] [Value 1 (ScalarType SignedInt)]
                              (Some (IntegerAttr 6)) 0],
                  nextValue = 2\<rparr>,
      symbolTable = [[(''x'', Value 0 (ScalarType SignedInt)), (''y'', Value 1 (ScalarType SignedInt))]],
      builtins = exampleBuiltins, args = Map.empty\<rparr>"

definition exampleThen :: Statement where
  "exampleThen =
     BlockStatement [AssignStatement [''x''] (LiteralExpr (IntLiteral 1)),
                     AssignStatement [''tmp''] (LiteralExpr (IntLiteral 3))]"

definition exampleElse :: Statement where
  "exampleElse = BlockStatement [AssignStatement [''y''] (LiteralExpr (IntLiteral 2))]"

definition exampleIf :: Statement where
  "exampleIf = IfStatement (LiteralExpr (BoolLiteral True)) exampleThen (Some exampleElse)"

text \<open>The block and the scopes that lowering \<open>exampleIf\<close> from \<open>exampleVisitor\<close> leaves.\<close>

definition exampleBlock :: "Operation list" where
  "exampleBlock =
     [Operation ''daphne.constant'' [] [Value 0 (ScalarType SignedInt)] (Some (IntegerAttr 5)) 0,
      Operation ''daphne.constant'' [] [Value 1 (ScalarType SignedInt)] (Some (IntegerAttr 6)) 0,
      Operation ''daphne.constant'' [] [Value 2 (ScalarType Boolean)] (Some (BoolAttr True)) 0,
      Operation ''daphne.constant'' [] [Value 3 (ScalarType SignedInt)] (Some (IntegerAttr 1)) 0,
      Operation ''daphne.constant'' [] [Value 4 (ScalarType SignedInt)] (Some (IntegerAttr 3)) 0,
      Operation ''daphne.constant'' [] [Value 5 (ScalarType SignedInt)] (Some (IntegerAttr 2)) 0,
      Operation ''merge'' [Value 3 (ScalarType SignedInt), Value 0 (ScalarType SignedInt)]
        [Value 6 (ScalarType SignedInt)] (Some (PathOriginAttr (Value 2 (ScalarType Boolean)))) 0,
      Operation ''merge'' [Value 1 (ScalarType SignedInt), Value 5 (ScalarType SignedInt)]
        [Value 7 (ScalarType SignedInt)] (Some (PathOriginAttr (Value 2 (ScalarType Boolean)))) 0]"

definition exampleScopes :: ScopedSymbolTable where
  "exampleScopes =
     [[(''x'', Value 6 (ScalarType SignedInt)), (''y'', Value 7 (ScalarType SignedInt))]]"

section \<open>Properties of the dialect layer\<close>

lemma freshValues_single: "freshValues n [ty] = [Value n ty]"
  by (simp add: freshValues_def)

lemma materializeConstant_op:
  "materializeConstant b v ty loc = (h, b') \<Longrightarrow>
     block b' ! h = Operation constantOpName [] [Value (nextValue b) ty] (Some v) loc"
  by (auto simp: materializeConstant_def create_ConstantOp_def create_def freshValues_single
      nth_append)

text \<open>
  C1. A constant operation has no operands, so it is asked to fold with an empty operand
  list. It then returns the attribute it carries. Folding again, on the IR the first
  call left, returns the same attribute. The IR is returned as it was, and the result is
  the same in every IR that holds the same operation at the handle (in particular after
  any other operation was replaced), so no other operation is read or changed.
\<close>

theorem C1_fold_returns_own_value:
  assumes "this < length ir" and "operands (ir ! this) = []"
  shows "ConstantOp_fold ir this (foldOperands consts (ir ! this)) = Inr (getValue (ir ! this), ir)
     \<and> (\<exists>r ir1. ConstantOp_fold ir this (foldOperands consts (ir ! this)) = Inr (r, ir1)
           \<and> ConstantOp_fold ir1 this (foldOperands consts (ir1 ! this)) = Inr (r, ir1))
     \<and> (\<forall>ir'. this < length ir' \<and> ir' ! this = ir ! this \<longrightarrow>
           map_sum id fst (ConstantOp_fold ir' this (foldOperands consts (ir' ! this))) =
           map_sum id fst (ConstantOp_fold ir this (foldOperands consts (ir ! this))))
     \<and> (\<forall>i op. i < length ir \<and> i \<noteq> this \<longrightarrow>
           map_sum id fst (ConstantOp_fold (ir[i := op]) this (foldOperands consts (ir[i := op] ! this))) =
           map_sum id fst (ConstantOp_fold ir this (foldOperands consts (ir ! this))))"
  using assms by (simp add: ConstantOp_fold_def foldOperands_def)

theorem C1_fold_returns_own_value_witness:
  "ConstantOp_fold
      [Operation constantOpName [] [Value 0 (ScalarType SignedInt)] (Some (IntegerAttr 1)) 0,
       Operation constantOpName [] [Value 1 (ScalarType SignedInt)] (Some (IntegerAttr 2)) 0]
      1
      (foldOperands (\<lambda>v. None)
        (Operation constantOpName [] [Value 1 (ScalarType SignedInt)] (Some (IntegerAttr 2)) 0))
    = Inr (Some (IntegerAttr 2),
      [Operation constantOpName [] [Value 0 (ScalarType SignedInt)] (Some (IntegerAttr 1)) 0,
       Operation constantOpName [] [Value 1 (ScalarType SignedInt)] (Some (IntegerAttr 2)) 0])"
proof -
  let ?ir = "[Operation constantOpName [] [Value 0 (ScalarType SignedInt)] (Some (IntegerAttr 1)) 0,
       Operation constantOpName [] [Value 1 (ScalarType SignedInt)] (Some (IntegerAttr 2)) 0]"
  have h1: "1 < length ?ir" by simp
  have h2: "operands (?ir ! 1) = []" by simp
  from C1_fold_returns_own_value [OF h1 h2, of "\<lambda>v. None", THEN conjunct1]
  show ?thesis by (simp add: getValue_def)
qed

text \<open>
  C2, as the code has it. The printer writes the spelling \<open>Matrix\<close> for every matrix type,
  whatever its dimensions and element kind. Parsing that spelling again gives the
  default-constructed integer type, which is not a matrix type: printing and re-parsing
  does not give back the type that was printed.
\<close>

theorem C2_print_then_parse_gives_IntegerType:
  "isa_MatrixType t \<Longrightarrow>
     printType t os = os @ ''Matrix''
     \<and> parseType (printType t os) = Inr IntegerType
     \<and> \<not> isa_MatrixType IntegerType"
  by (simp add: printType_def parseType_def)

theorem C2_print_then_parse_gives_IntegerType_witness:
  "isa_MatrixType (MatrixType (Some 2) (Some 3) (Some FloatingPoint))
   \<and> printType (MatrixType (Some 2) (Some 3) (Some FloatingPoint)) [] = ''Matrix''
   \<and> parseType (printType (MatrixType (Some 2) (Some 3) (Some FloatingPoint)) []) = Inr IntegerType"
proof -
  have h: "isa_MatrixType (MatrixType (Some 2) (Some 3) (Some FloatingPoint))"
    by simp
  note r = C2_print_then_parse_gives_IntegerType [OF h, of "[]"]
  from r have a: "printType (MatrixType (Some 2) (Some 3) (Some FloatingPoint)) [] = ''Matrix''"
    by simp
  from r have b:
    "parseType (printType (MatrixType (Some 2) (Some 3) (Some FloatingPoint)) []) = Inr IntegerType"
    by blast
  from h a b show ?thesis by blast
qed

theorem C2_roundtrip_counterexample:
  "parseType (printType (MatrixType None None None) []) \<noteq> Inr (MatrixType None None None)"
  by (simp add: printType_def parseType_def)

text \<open>
  C3, as the code has it. For every type spelling, recognized or not, the parser returns
  the handle \<^verbatim>\<open>mlir::IntegerType()\<close>, the default-constructed integer type, and raises
  no error: it never fails with \<open>UnknownType\<close>, nor with any other error.
\<close>

theorem C3_parseType_never_fails:
  "parseType spelling = Inr IntegerType
   \<and> parseType spelling \<noteq> Inl UnknownType
   \<and> (\<forall>x. parseType spelling \<noteq> Inl x)"
  by (simp add: parseType_def)

theorem C3_parseType_never_fails_witness:
  "parseType ''no such type'' = Inr IntegerType
   \<and> parseType ''no such type'' \<noteq> Inl UnknownType"
  using C3_parseType_never_fails [of "''no such type''"] by blast

theorem C3_UnknownType_counterexample:
  "parseType ''no such type'' \<noteq> Inl UnknownType"
  by (simp add: parseType_def)

text \<open>
  C9. The type parser is a constant function: for every input it returns the
  default-constructed integer type. It never reports an error and never returns a
  matrix type.
\<close>

theorem C9_parseType_constant:
  "parseType p = Inr IntegerType
   \<and> parseType p = parseType q
   \<and> (\<forall>e. parseType p \<noteq> Inl e)
   \<and> (\<forall>r c k. parseType p \<noteq> Inr (MatrixType r c k))"
  by (simp add: parseType_def)

theorem C9_parseType_constant_witness:
  "parseType ''Matrix'' = Inr IntegerType \<and> parseType ''Matrix'' = parseType ''si64''"
  using C9_parseType_constant [of "''Matrix''" "''si64''"] by blast

text \<open>
  C10. The operation that \<open>materializeConstant\<close> builds has no operands. The folding
  driver therefore calls its \<open>fold\<close> with an empty list, the assertion holds, and \<open>fold\<close>
  returns the attribute the constant was built from, without changing the IR.
\<close>

theorem C10_fold_total_on_materialized:
  "materializeConstant b v ty loc = (h, b') \<Longrightarrow>
     operands (block b' ! h) = []
     \<and> foldOperands consts (block b' ! h) = []
     \<and> ConstantOp_fold (block b') h (foldOperands consts (block b' ! h)) = Inr (Some v, block b')"
proof -
  assume "materializeConstant b v ty loc = (h, b')"
  then have "block b' ! h = Operation constantOpName [] [Value (nextValue b) ty] (Some v) loc"
    by (rule materializeConstant_op)
  then show ?thesis
    by (simp add: foldOperands_def ConstantOp_fold_def getValue_def)
qed

theorem C10_fold_total_on_materialized_witness:
  "materializeConstant \<lparr>block = [], nextValue = 0\<rparr> (IntegerAttr 7) (ScalarType SignedInt) 0
     = (0, \<lparr>block = [Operation constantOpName [] [Value 0 (ScalarType SignedInt)] (Some (IntegerAttr 7)) 0],
            nextValue = 1\<rparr>)
   \<and> ConstantOp_fold
        [Operation constantOpName [] [Value 0 (ScalarType SignedInt)] (Some (IntegerAttr 7)) 0] 0
        (foldOperands (\<lambda>x. None)
          (Operation constantOpName [] [Value 0 (ScalarType SignedInt)] (Some (IntegerAttr 7)) 0))
     = Inr (Some (IntegerAttr 7),
        [Operation constantOpName [] [Value 0 (ScalarType SignedInt)] (Some (IntegerAttr 7)) 0])"
proof -
  have m: "materializeConstant \<lparr>block = [], nextValue = 0\<rparr> (IntegerAttr 7) (ScalarType SignedInt) 0
     = (0, \<lparr>block = [Operation constantOpName [] [Value 0 (ScalarType SignedInt)] (Some (IntegerAttr 7)) 0],
            nextValue = 1\<rparr>)"
    by (simp add: materializeConstant_def create_ConstantOp_def create_def freshValues_single)
  note r = C10_fold_total_on_materialized [OF m, of "\<lambda>x. None"]
  from r [THEN conjunct2, THEN conjunct2] have
    "ConstantOp_fold
        [Operation constantOpName [] [Value 0 (ScalarType SignedInt)] (Some (IntegerAttr 7)) 0] 0
        (foldOperands (\<lambda>x. None)
          (Operation constantOpName [] [Value 0 (ScalarType SignedInt)] (Some (IntegerAttr 7)) 0))
     = Inr (Some (IntegerAttr 7),
        [Operation constantOpName [] [Value 0 (ScalarType SignedInt)] (Some (IntegerAttr 7)) 0])"
    by simp
  with m show ?thesis by blast
qed

section \<open>Properties of the scoped symbol table\<close>

lemma lookup_declareVar: "lookup k (declareVar n v st) = (if k = n then Inr v else lookup k st)"
  by (cases st) (simp_all add: update_conv')

lemma lookup_append_unbound:
  "\<forall>f\<in>set inner. map_of f n = None \<Longrightarrow> lookup n (inner @ st) = lookup n st"
  by (induction inner) simp_all

lemma declareAll_Cons: "\<exists>f'. declareAll bs (f # fs) = f' # fs"
proof (induction bs arbitrary: f)
  case Nil
  show ?case by simp
next
  case (Cons b bs)
  obtain n v where b: "b = (n, v)" by (cases b)
  show ?case using Cons [of "AList.update n v f"] by (simp add: b)
qed

lemma popScope_declareAll_pushScope: "popScope (declareAll bs (pushScope st)) = st"
proof -
  obtain f' where "declareAll bs ([] # st) = f' # st"
    using declareAll_Cons [of bs "[]" st] by blast
  then show ?thesis by (simp add: pushScope_def)
qed

lemma lookup_unknown_iff:
  "(lookup n st = Inl UnknownVariable) = (\<forall>f\<in>set st. map_of f n = None)"
  by (induction st) (auto split: option.splits)

lemma lookup_error: "lookup n st = Inl x \<Longrightarrow> x = UnknownVariable"
  by (induction st) (auto split: option.splits)

text \<open>
  C7. A name that was declared is found with the value declared last, in the same scope
  and through any nested scopes that do not bind the name themselves; a declaration of
  another name does not disturb it. Popping a scope removes exactly what was declared
  in it, so afterwards a name resolves as it did before the push: not at all if it was
  not bound then. A lookup fails only with \<open>UnknownVariable\<close>, and exactly when no scope
  binds the name.
\<close>

theorem C7_scoped_lookup:
  "lookup n (declareVar n v st) = Inr v
   \<and> (m \<noteq> n \<longrightarrow> lookup n (declareVar m w st) = lookup n st)
   \<and> ((\<forall>f\<in>set inner. map_of f n = None) \<longrightarrow> lookup n (inner @ declareVar n v st) = Inr v)
   \<and> popScope (declareAll bs (pushScope st)) = st
   \<and> lookup n (popScope (declareAll bs (pushScope st))) = lookup n st
   \<and> ((\<forall>f\<in>set st. map_of f n = None) \<longrightarrow> lookup n st = Inl UnknownVariable)
   \<and> (\<forall>x. lookup n st = Inl x \<longrightarrow> x = UnknownVariable \<and> (\<forall>f\<in>set st. map_of f n = None))"
proof (intro conjI impI allI)
  show "lookup n (declareVar n v st) = Inr v"
    by (simp add: lookup_declareVar)
  show "lookup n (declareVar m w st) = lookup n st" if "m \<noteq> n"
    using that by (simp add: lookup_declareVar)
  show "lookup n (inner @ declareVar n v st) = Inr v" if "\<forall>f\<in>set inner. map_of f n = None"
    using that by (simp add: lookup_append_unbound lookup_declareVar)
  show "popScope (declareAll bs (pushScope st)) = st"
    by (rule popScope_declareAll_pushScope)
  show "lookup n (popScope (declareAll bs (pushScope st))) = lookup n st"
    by (simp add: popScope_declareAll_pushScope)
  show "lookup n st = Inl UnknownVariable" if "\<forall>f\<in>set st. map_of f n = None"
    using that by (simp add: lookup_unknown_iff)
  show "x = UnknownVariable" if "lookup n st = Inl x" for x
    using that by (rule lookup_error)
  show "\<forall>f\<in>set st. map_of f n = None" if "lookup n st = Inl x" for x
    using that lookup_error [OF that] by (simp add: lookup_unknown_iff)
qed

theorem C7_scoped_lookup_witness:
  "lookup ''x'' (declareVar ''x'' (Value 1 UnknownTy) [[(''x'', Value 0 UnknownTy)]]) = Inr (Value 1 UnknownTy)
   \<and> lookup ''x'' ([[(''y'', Value 2 UnknownTy)]] @ declareVar ''x'' (Value 1 UnknownTy) [[]]) = Inr (Value 1 UnknownTy)
   \<and> lookup ''y'' (popScope (declareAll [(''y'', Value 2 UnknownTy)] (pushScope [[(''x'', Value 0 UnknownTy)]])))
       = Inl UnknownVariable
   \<and> lookup ''x'' (popScope (declareAll [(''x'', Value 2 UnknownTy)] (pushScope [[(''x'', Value 0 UnknownTy)]])))
       = Inr (Value 0 UnknownTy)"
proof -
  note a = C7_scoped_lookup [of "''x''" "Value 1 UnknownTy" "[[(''x'', Value 0 UnknownTy)]]"
      "''y''" "Value 2 UnknownTy" "[]" "[]"]
  note b = C7_scoped_lookup [of "''x''" "Value 1 UnknownTy" "[[]]"
      "''y''" "Value 2 UnknownTy" "[[(''y'', Value 2 UnknownTy)]]" "[]"]
  note c = C7_scoped_lookup [of "''y''" "Value 1 UnknownTy" "[[(''x'', Value 0 UnknownTy)]]"
      "''x''" "Value 2 UnknownTy" "[]" "[(''y'', Value 2 UnknownTy)]"]
  note d = C7_scoped_lookup [of "''x''" "Value 1 UnknownTy" "[[(''x'', Value 0 UnknownTy)]]"
      "''y''" "Value 2 UnknownTy" "[]" "[(''x'', Value 2 UnknownTy)]"]
  have 1: "lookup ''x'' (declareVar ''x'' (Value 1 UnknownTy) [[(''x'', Value 0 UnknownTy)]]) = Inr (Value 1 UnknownTy)"
    using a by blast
  have 2: "lookup ''x'' ([[(''y'', Value 2 UnknownTy)]] @ declareVar ''x'' (Value 1 UnknownTy) [[]]) = Inr (Value 1 UnknownTy)"
    using b by simp
  have 3: "lookup ''y'' (popScope (declareAll [(''y'', Value 2 UnknownTy)] (pushScope [[(''x'', Value 0 UnknownTy)]])))
       = Inl UnknownVariable"
    using c by simp
  have 4: "lookup ''x'' (popScope (declareAll [(''x'', Value 2 UnknownTy)] (pushScope [[(''x'', Value 0 UnknownTy)]])))
       = Inr (Value 0 UnknownTy)"
    using d by simp
  from 1 2 3 4 show ?thesis by blast
qed

section \<open>Properties of lowering expressions\<close>

lemma appended_refl: "appended vis vis"
  by (simp add: appended_def)

lemma appended_trans: "appended a b \<Longrightarrow> appended b c \<Longrightarrow> appended a c"
  by (auto simp: appended_def)

lemma emit_eq:
  "emit name vs tys att vis =
     (freshValues (nextValue (builder vis)) tys,
      vis\<lparr>builder := (builder vis)\<lparr>block := block (builder vis) @
                 [Operation name vs (freshValues (nextValue (builder vis)) tys) att 0],
              nextValue := nextValue (builder vis) + length tys\<rparr>\<rparr>)"
  by (simp add: emit_def create_def)

lemma emitConstant_eq: "emitConstant att ty vis = emit constantOpName [] [ty] (Some att) vis"
  by (simp add: emitConstant_def emit_def materializeConstant_def create_ConstantOp_def)

lemma appended_emit: "emit name vs tys att vis = (rs, vis') \<Longrightarrow> appended vis vis'"
  by (auto simp: emit_eq appended_def)

lemma appended_emitConstant: "emitConstant att ty vis = (rs, vis') \<Longrightarrow> appended vis vis'"
  by (simp add: emitConstant_eq appended_emit)

lemma appended_resolve: "resolve name vs tys vis = Inr (rs, vis') \<Longrightarrow> appended vis vis'"
  by (auto simp: resolve_def appended_emit split: option.splits if_splits)

lemma asSingle_Inr:
  "asSingle r = Inr (v, vis') \<Longrightarrow> r = Inr ([v], vis')"
  by (auto simp: asSingle_def split: sum.splits list.splits)

lemma appended_visitExpr:
  "visitExpr e vis = Inr (vs, vis') \<Longrightarrow> appended vis vis'"
  "visitExprs es vis = Inr (vs, vis') \<Longrightarrow> appended vis vis'"
  "visitSelector sel vis = Inr (vs, vis') \<Longrightarrow> appended vis vis'"
proof (induction e vis and es vis and sel vis arbitrary: vs vis' and vs vis' and vs vis'
    rule: visitExpr_visitExprs_visitSelector.induct)
  case (1 l vis)
  then show ?case by (auto intro: appended_emitConstant)
next
  case (2 a vis)
  then show ?case by (auto split: option.splits intro: appended_emitConstant)
next
  case (3 n vis)
  then show ?case by (auto split: sum.splits intro: appended_refl)
next
  case (4 e vis)
  then show ?case by simp
next
  case (5 f tys es vis)
  then show ?case
    by (auto split: sum.splits) (meson appended_trans appended_resolve)+
next
  case (6 spelling e vis)
  then show ?case
    by (auto split: sum.splits dest!: asSingle_Inr) (meson appended_trans appended_emit)+
next
  case (7 m rows cols vis)
  then show ?case
    by (auto split: sum.splits dest!: asSingle_Inr) (meson appended_trans appended_emit)+
next
  case (8 m rows cols vis)
  then show ?case
    by (auto split: sum.splits dest!: asSingle_Inr) (meson appended_trans appended_emit)+
next
  case (9 l r vis)
  then show ?case
    by (auto split: sum.splits dest!: asSingle_Inr) (meson appended_trans appended_resolve)+
next
  case (10 l r vis)
  then show ?case
    by (auto split: sum.splits dest!: asSingle_Inr) (meson appended_trans appended_resolve)+
next
  case (11 l r vis)
  then show ?case
    by (auto split: sum.splits dest!: asSingle_Inr) (meson appended_trans appended_resolve)+
next
  case (12 opr l r vis)
  then show ?case
    by (auto split: sum.splits dest!: asSingle_Inr) (meson appended_trans appended_resolve)+
next
  case (13 opr l r vis)
  then show ?case
    by (auto split: sum.splits dest!: asSingle_Inr) (meson appended_trans appended_resolve)+
next
  case (14 opr l r vis)
  then show ?case
    by (auto split: sum.splits dest!: asSingle_Inr) (meson appended_trans appended_resolve)+
next
  case (15 l r vis)
  then show ?case
    by (auto split: sum.splits dest!: asSingle_Inr) (meson appended_trans appended_resolve)+
next
  case (16 l r vis)
  then show ?case
    by (auto split: sum.splits dest!: asSingle_Inr) (meson appended_trans appended_resolve)+
next
  case (17 vis)
  then show ?case by (auto intro: appended_refl)
next
  case (18 e es vis)
  then show ?case
    by (auto split: sum.splits dest!: asSingle_Inr) (meson appended_trans)+
next
  case (19 vis)
  then show ?case by (auto intro: appended_refl)
next
  case (20 e vis)
  then show ?case
    by (auto split: sum.splits dest!: asSingle_Inr)
qed

lemma resolve_block:
  "resolve name vs tys vis = Inr (rs, vis') \<Longrightarrow>
     \<exists>opn. block (builder vis') = block (builder vis) @ [Operation opn vs rs None 0]"
  by (auto simp: resolve_def emit_eq split: option.splits if_splits)

lemma appended_block:
  "appended vis vis' \<Longrightarrow> \<exists>ops. block (builder vis') = block (builder vis) @ ops"
  by (simp add: appended_def)

lemma visitBinary_steps:
  assumes "(case asSingle (visitExpr l vis) of
              Inl x \<Rightarrow> Inl x
            | Inr (a, vis1) \<Rightarrow>
                (case asSingle (visitExpr r vis1) of
                   Inl x \<Rightarrow> Inl x
                 | Inr (b, vis2) \<Rightarrow> resolve name [a, b] [] vis2)) = Inr (vs, vis')"
  shows "\<exists>a vis1 b vis2 ops1 ops2 op.
           asSingle (visitExpr l vis) = Inr (a, vis1)
         \<and> asSingle (visitExpr r vis1) = Inr (b, vis2)
         \<and> block (builder vis1) = block (builder vis) @ ops1
         \<and> block (builder vis2) = block (builder vis1) @ ops2
         \<and> block (builder vis') = block (builder vis2) @ [op]
         \<and> operands op = [a, b] \<and> results op = vs"
proof -
  from assms obtain a vis1 where l: "asSingle (visitExpr l vis) = Inr (a, vis1)"
    by (auto split: sum.splits)
  from assms l obtain b vis2 where r: "asSingle (visitExpr r vis1) = Inr (b, vis2)"
    by (auto split: sum.splits)
  from assms l r have res: "resolve name [a, b] [] vis2 = Inr (vs, vis')"
    by simp
  from l have "appended vis vis1"
    by (auto dest!: asSingle_Inr intro: appended_visitExpr(1))
  then obtain ops1 where o1: "block (builder vis1) = block (builder vis) @ ops1"
    by (auto dest: appended_block)
  from r have "appended vis1 vis2"
    by (auto dest!: asSingle_Inr intro: appended_visitExpr(1))
  then obtain ops2 where o2: "block (builder vis2) = block (builder vis1) @ ops2"
    by (auto dest: appended_block)
  from resolve_block [OF res] obtain opn where
    o3: "block (builder vis') = block (builder vis2) @ [Operation opn [a, b] vs None 0]"
    by blast
  have "operands (Operation opn [a, b] vs None 0) = [a, b]"
    and "results (Operation opn [a, b] vs None 0) = vs"
    by simp_all
  with l r o1 o2 o3 show ?thesis by blast
qed

text \<open>
  C5. Lowering \<open>l + r\<close> and lowering a call of the addition built-in with the arguments
  \<open>l\<close> and \<open>r\<close> give the same result from every state: the same values, the same block,
  the same error. Once the operands are lowered to \<open>a\<close> and \<open>b\<close>, both are the one call
  of the resolver with the name of the addition built-in and the operands \<open>a\<close>, \<open>b\<close>.
\<close>

theorem C5_operator_dispatch_is_call_dispatch:
  "visitExpr (AddExpr AddPlus l r) vis = visitExpr (CallExpr (addBuiltin AddPlus) [] [l, r]) vis
   \<and> (asSingle (visitExpr l vis) = Inr (a, vis1) \<and> asSingle (visitExpr r vis1) = Inr (b, vis2) \<longrightarrow>
        visitExpr (AddExpr AddPlus l r) vis = resolve ''add'' [a, b] [] vis2
      \<and> visitExpr (CallExpr ''add'' [] [l, r]) vis = resolve ''add'' [a, b] [] vis2)"
  by (auto split: sum.splits)

text \<open>
  C6. When a conjunction or a disjunction is lowered, the left operand is lowered first,
  the right operand is lowered from the state the left one leaves, and one operation
  with the two operands is appended after both. The right operand is lowered whatever
  the left operand's value is: nothing is skipped.
\<close>

theorem C6_both_operands_lowered:
  "(visitExpr (ConjExpr l r) vis = Inr (vs, vis') \<longrightarrow>
      (\<exists>a vis1 b vis2 ops1 ops2 op.
           asSingle (visitExpr l vis) = Inr (a, vis1)
         \<and> asSingle (visitExpr r vis1) = Inr (b, vis2)
         \<and> block (builder vis1) = block (builder vis) @ ops1
         \<and> block (builder vis2) = block (builder vis1) @ ops2
         \<and> block (builder vis') = block (builder vis2) @ [op]
         \<and> operands op = [a, b] \<and> results op = vs))
   \<and> (visitExpr (DisjExpr l r) vis = Inr (vs, vis') \<longrightarrow>
      (\<exists>a vis1 b vis2 ops1 ops2 op.
           asSingle (visitExpr l vis) = Inr (a, vis1)
         \<and> asSingle (visitExpr r vis1) = Inr (b, vis2)
         \<and> block (builder vis1) = block (builder vis) @ ops1
         \<and> block (builder vis2) = block (builder vis1) @ ops2
         \<and> block (builder vis') = block (builder vis2) @ [op]
         \<and> operands op = [a, b] \<and> results op = vs))
   \<and> (asSingle (visitExpr l vis) = Inr (c, vis0) \<longrightarrow>
        visitExpr (ConjExpr l r) vis =
          (case asSingle (visitExpr r vis0) of
             Inl x \<Rightarrow> Inl x
           | Inr (b, vis2) \<Rightarrow> resolve ''and'' [c, b] [] vis2)
      \<and> visitExpr (DisjExpr l r) vis =
          (case asSingle (visitExpr r vis0) of
             Inl x \<Rightarrow> Inl x
           | Inr (b, vis2) \<Rightarrow> resolve ''or'' [c, b] [] vis2))"
proof (intro conjI impI)
  assume "visitExpr (ConjExpr l r) vis = Inr (vs, vis')"
  then show "\<exists>a vis1 b vis2 ops1 ops2 op.
           asSingle (visitExpr l vis) = Inr (a, vis1)
         \<and> asSingle (visitExpr r vis1) = Inr (b, vis2)
         \<and> block (builder vis1) = block (builder vis) @ ops1
         \<and> block (builder vis2) = block (builder vis1) @ ops2
         \<and> block (builder vis') = block (builder vis2) @ [op]
         \<and> operands op = [a, b] \<and> results op = vs"
    by (intro visitBinary_steps [where name = "''and''"]) simp
next
  assume "visitExpr (DisjExpr l r) vis = Inr (vs, vis')"
  then show "\<exists>a vis1 b vis2 ops1 ops2 op.
           asSingle (visitExpr l vis) = Inr (a, vis1)
         \<and> asSingle (visitExpr r vis1) = Inr (b, vis2)
         \<and> block (builder vis1) = block (builder vis) @ ops1
         \<and> block (builder vis2) = block (builder vis1) @ ops2
         \<and> block (builder vis') = block (builder vis2) @ [op]
         \<and> operands op = [a, b] \<and> results op = vs"
    by (intro visitBinary_steps [where name = "''or''"]) simp
next
  assume "asSingle (visitExpr l vis) = Inr (c, vis0)"
  then show "visitExpr (ConjExpr l r) vis =
          (case asSingle (visitExpr r vis0) of
             Inl x \<Rightarrow> Inl x
           | Inr (b, vis2) \<Rightarrow> resolve ''and'' [c, b] [] vis2)"
    by simp
next
  assume "asSingle (visitExpr l vis) = Inr (c, vis0)"
  then show "visitExpr (DisjExpr l r) vis =
          (case asSingle (visitExpr r vis0) of
             Inl x \<Rightarrow> Inl x
           | Inr (b, vis2) \<Rightarrow> resolve ''or'' [c, b] [] vis2)"
    by simp
qed

lemmas run_simps = emitConstant_eq emit_eq resolve_def asSingle_def exampleBuiltins_def
  newVisitor_def freshValues_def emitted_def constantOpName_def

theorem C5_operator_dispatch_is_call_dispatch_witness:
  "emitted (visitExpr (AddExpr AddPlus (LiteralExpr (IntLiteral 1)) (LiteralExpr (IntLiteral 2)))
      (newVisitor exampleBuiltins Map.empty))
   = Inr ([Value 2 (ScalarType SignedInt)],
       [Operation ''daphne.constant'' [] [Value 0 (ScalarType SignedInt)] (Some (IntegerAttr 1)) 0,
        Operation ''daphne.constant'' [] [Value 1 (ScalarType SignedInt)] (Some (IntegerAttr 2)) 0,
        Operation ''ewAdd'' [Value 0 (ScalarType SignedInt), Value 1 (ScalarType SignedInt)]
          [Value 2 (ScalarType SignedInt)] None 0])
   \<and> emitted (visitExpr (CallExpr ''add'' [] [LiteralExpr (IntLiteral 1), LiteralExpr (IntLiteral 2)])
      (newVisitor exampleBuiltins Map.empty))
   = emitted (visitExpr (AddExpr AddPlus (LiteralExpr (IntLiteral 1)) (LiteralExpr (IntLiteral 2)))
      (newVisitor exampleBuiltins Map.empty))"
proof -
  have a: "emitted (visitExpr (AddExpr AddPlus (LiteralExpr (IntLiteral 1)) (LiteralExpr (IntLiteral 2)))
      (newVisitor exampleBuiltins Map.empty))
   = Inr ([Value 2 (ScalarType SignedInt)],
       [Operation ''daphne.constant'' [] [Value 0 (ScalarType SignedInt)] (Some (IntegerAttr 1)) 0,
        Operation ''daphne.constant'' [] [Value 1 (ScalarType SignedInt)] (Some (IntegerAttr 2)) 0,
        Operation ''ewAdd'' [Value 0 (ScalarType SignedInt), Value 1 (ScalarType SignedInt)]
          [Value 2 (ScalarType SignedInt)] None 0])"
    by (simp add: run_simps)
  have b: "visitExpr (CallExpr ''add'' [] [LiteralExpr (IntLiteral 1), LiteralExpr (IntLiteral 2)])
      (newVisitor exampleBuiltins Map.empty)
    = visitExpr (AddExpr AddPlus (LiteralExpr (IntLiteral 1)) (LiteralExpr (IntLiteral 2)))
      (newVisitor exampleBuiltins Map.empty)"
    using C5_operator_dispatch_is_call_dispatch
      [of "LiteralExpr (IntLiteral 1)" "LiteralExpr (IntLiteral 2)" "newVisitor exampleBuiltins Map.empty"]
    by (simp del: visitExpr.simps)
  from a b show ?thesis by simp
qed

theorem C6_both_operands_lowered_witness:
  "emitted (visitExpr (ConjExpr (LiteralExpr (BoolLiteral False)) (LiteralExpr (BoolLiteral True)))
      (newVisitor exampleBuiltins Map.empty))
   = Inr ([Value 2 (ScalarType Boolean)],
       [Operation ''daphne.constant'' [] [Value 0 (ScalarType Boolean)] (Some (BoolAttr False)) 0,
        Operation ''daphne.constant'' [] [Value 1 (ScalarType Boolean)] (Some (BoolAttr True)) 0,
        Operation ''ewAnd'' [Value 0 (ScalarType Boolean), Value 1 (ScalarType Boolean)]
          [Value 2 (ScalarType Boolean)] None 0])
   \<and> (\<exists>a vis1 b vis2 ops1 ops2 op.
         asSingle (visitExpr (LiteralExpr (BoolLiteral False)) (newVisitor exampleBuiltins Map.empty))
           = Inr (a, vis1)
       \<and> asSingle (visitExpr (LiteralExpr (BoolLiteral True)) vis1) = Inr (b, vis2)
       \<and> block (builder vis1) = block (builder (newVisitor exampleBuiltins Map.empty)) @ ops1
       \<and> block (builder vis2) = block (builder vis1) @ ops2
       \<and> operands op = [a, b])"
proof -
  have a: "emitted (visitExpr (ConjExpr (LiteralExpr (BoolLiteral False)) (LiteralExpr (BoolLiteral True)))
      (newVisitor exampleBuiltins Map.empty))
   = Inr ([Value 2 (ScalarType Boolean)],
       [Operation ''daphne.constant'' [] [Value 0 (ScalarType Boolean)] (Some (BoolAttr False)) 0,
        Operation ''daphne.constant'' [] [Value 1 (ScalarType Boolean)] (Some (BoolAttr True)) 0,
        Operation ''ewAnd'' [Value 0 (ScalarType Boolean), Value 1 (ScalarType Boolean)]
          [Value 2 (ScalarType Boolean)] None 0])"
    by (simp add: run_simps)
  then obtain vs vis' where
    e: "visitExpr (ConjExpr (LiteralExpr (BoolLiteral False)) (LiteralExpr (BoolLiteral True)))
          (newVisitor exampleBuiltins Map.empty) = Inr (vs, vis')"
    by (auto simp: emitted_def simp del: visitExpr.simps split: sum.splits)
  from C6_both_operands_lowered
      [of "LiteralExpr (BoolLiteral False)" "LiteralExpr (BoolLiteral True)"
          "newVisitor exampleBuiltins Map.empty" vs vis', THEN conjunct1, rule_format, OF e]
  have "\<exists>a vis1 b vis2 ops1 ops2 op.
         asSingle (visitExpr (LiteralExpr (BoolLiteral False)) (newVisitor exampleBuiltins Map.empty))
           = Inr (a, vis1)
       \<and> asSingle (visitExpr (LiteralExpr (BoolLiteral True)) vis1) = Inr (b, vis2)
       \<and> block (builder vis1) = block (builder (newVisitor exampleBuiltins Map.empty)) @ ops1
       \<and> block (builder vis2) = block (builder vis1) @ ops2
       \<and> operands op = [a, b]"
    by blast
  with a show ?thesis by blast
qed

section \<open>Properties of lowering statements\<close>

lemma symbolTable_bindAll:
  "symbolTable (bindAll ns vs vis) = declareAll (zip ns vs) (symbolTable vis)"
  by (simp add: bindAll_def)

lemma builder_bindAll: "builder (bindAll ns vs vis) = builder vis"
  by (simp add: bindAll_def)

lemma symbolTable_openScope: "symbolTable (openScope vis) = [] # symbolTable vis"
  by (simp add: openScope_def pushScope_def)

lemma closeScope_Inr:
  "closeScope r = Inr (ow, vis2) \<Longrightarrow>
     \<exists>v. r = Inr v \<and> ow = currentScopeBindings (symbolTable v)
        \<and> vis2 = v\<lparr>symbolTable := popScope (symbolTable v)\<rparr>"
  by (auto simp: closeScope_def split: sum.splits)

lemma asCondition_Inr:
  "asCondition r = Inr (c, vis1) \<Longrightarrow>
     \<exists>v vis0. r = Inr (v, vis0) \<and>
       ((c = v \<and> vis1 = vis0) \<or>
        (([c], vis1) = emit ''cast'' [v] [ScalarType Boolean] None vis0))"
  by (auto simp: asCondition_def asSingle_def emit_eq freshValues_single split: sum.splits if_splits)

lemma appended_condition:
  assumes "asCondition (asSingle (visitExpr c vis)) = Inr (cond, vis1)"
  shows "appended vis vis1"
proof -
  from asCondition_Inr [OF assms] obtain v vis0 where
    r: "asSingle (visitExpr c vis) = Inr (v, vis0)"
    and d: "(cond = v \<and> vis1 = vis0) \<or> ([cond], vis1) = emit ''cast'' [v] [ScalarType Boolean] None vis0"
    by blast
  from r have a: "appended vis vis0"
    by (auto dest!: asSingle_Inr intro: appended_visitExpr(1))
  from d show ?thesis
  proof
    assume "cond = v \<and> vis1 = vis0"
    with a show ?thesis by simp
  next
    assume "([cond], vis1) = emit ''cast'' [v] [ScalarType Boolean] None vis0"
    then have "appended vis0 vis1" by (metis appended_emit)
    with a show ?thesis by (rule appended_trans)
  qed
qed

lemma appended_operand:
  "asSingle (visitExpr e vis) = Inr (v, vis1) \<Longrightarrow> appended vis vis1"
  by (auto dest!: asSingle_Inr intro: appended_visitExpr(1))

lemma sameOuterScopes_trans:
  "sameOuterScopes a b \<Longrightarrow> sameOuterScopes b c \<Longrightarrow> sameOuterScopes a c"
  by (auto simp: sameOuterScopes_def)

lemma sameOuterScopes_appended:
  "symbolTable vis \<noteq> [] \<Longrightarrow> appended vis vis' \<Longrightarrow> sameOuterScopes vis vis'"
  by (cases "symbolTable vis") (auto simp: sameOuterScopes_def appended_def)

lemma sameOuterScopes_bindAll:
  "symbolTable vis \<noteq> [] \<Longrightarrow> sameOuterScopes vis (bindAll ns vs vis)"
proof -
  assume "symbolTable vis \<noteq> []"
  then obtain f fs where s: "symbolTable vis = f # fs" by (cases "symbolTable vis") auto
  obtain f' where "declareAll (zip ns vs) (f # fs) = f' # fs"
    using declareAll_Cons by blast
  with s show ?thesis by (simp add: sameOuterScopes_def symbolTable_bindAll)
qed

lemma sameOuterScopes_nonempty: "sameOuterScopes vis vis' \<Longrightarrow> symbolTable vis' \<noteq> []"
  by (auto simp: sameOuterScopes_def)

lemma symbolTable_emit: "emit name vs tys att vis = (rs, vis') \<Longrightarrow> symbolTable vis' = symbolTable vis"
  by (auto simp: emit_eq)

lemma sameOuterScopes_emitLoop:
  "symbolTable vis \<noteq> [] \<Longrightarrow> sameOuterScopes vis (emitLoop name leading att carried vis)"
proof -
  assume n: "symbolTable vis \<noteq> []"
  obtain rs vis1 where e: "emit name (leading @ map (\<lambda>(n, v0, v). v0) carried @ map (\<lambda>(n, v0, v). v) carried)
             (map (\<lambda>(n, v0, v). vtype v0) carried) att vis = (rs, vis1)"
    by (cases "emit name (leading @ map (\<lambda>(n, v0, v). v0) carried @ map (\<lambda>(n, v0, v). v) carried)
             (map (\<lambda>(n, v0, v). vtype v0) carried) att vis") auto
  then have a: "appended vis vis1" by (rule appended_emit)
  with n have 1: "sameOuterScopes vis vis1" by (rule sameOuterScopes_appended)
  then have "symbolTable vis1 \<noteq> []" by (rule sameOuterScopes_nonempty)
  then have "sameOuterScopes vis1 (bindAll (map fst carried) rs vis1)"
    by (rule sameOuterScopes_bindAll)
  with 1 have "sameOuterScopes vis (bindAll (map fst carried) rs vis1)"
    by (rule sameOuterScopes_trans)
  with e show ?thesis by (simp add: emitLoop_def)
qed

lemma sameOuterScopes_refl: "symbolTable vis \<noteq> [] \<Longrightarrow> sameOuterScopes vis vis"
  by (cases "symbolTable vis") (auto simp: sameOuterScopes_def)

lemma mergeName_cases:
  obtains (skipped) "mergeName cond owT owE n vis = vis"
      and "\<exists>x. branchValue owT n (symbolTable vis) = Inl x \<or> branchValue owE n (symbolTable vis) = Inl x"
    | (merged) vt ve vis1 where
        "branchValue owT n (symbolTable vis) = Inr vt"
        "branchValue owE n (symbolTable vis) = Inr ve"
        "emit ''merge'' [vt, ve] [vtype vt] (Some (PathOriginAttr cond)) vis
           = ([Value (nextValue (builder vis)) (vtype vt)], vis1)"
        "mergeName cond owT owE n vis
           = bindAll [n] [Value (nextValue (builder vis)) (vtype vt)] vis1"
proof (cases "branchValue owT n (symbolTable vis)")
  case (Inl x)
  then have "mergeName cond owT owE n vis = vis" by (simp add: mergeName_def)
  with Inl skipped show ?thesis by blast
next
  case t: (Inr vt)
  show ?thesis
  proof (cases "branchValue owE n (symbolTable vis)")
    case (Inl x)
    with t have "mergeName cond owT owE n vis = vis" by (simp add: mergeName_def)
    with Inl skipped show ?thesis by blast
  next
    case e: (Inr ve)
    obtain ms vis1 where
      m: "emit ''merge'' [vt, ve] [vtype vt] (Some (PathOriginAttr cond)) vis = (ms, vis1)"
      by (cases "emit ''merge'' [vt, ve] [vtype vt] (Some (PathOriginAttr cond)) vis") auto
    then have ms: "ms = [Value (nextValue (builder vis)) (vtype vt)]"
      by (auto simp: emit_eq freshValues_single)
    from t e m have "mergeName cond owT owE n vis = bindAll [n] ms vis1"
      by (simp add: mergeName_def)
    with t e m ms merged show ?thesis by simp
  qed
qed

lemma sameOuterScopes_mergeName:
  assumes "symbolTable vis \<noteq> []"
  shows "sameOuterScopes vis (mergeName cond owT owE n vis)"
proof (cases rule: mergeName_cases [of cond owT owE n vis])
  case skipped
  with assms show ?thesis by (simp add: sameOuterScopes_refl)
next
  case (merged vt ve vis1)
  from merged(3) have "appended vis vis1" by (rule appended_emit)
  with assms have 1: "sameOuterScopes vis vis1" by (rule sameOuterScopes_appended)
  then have "symbolTable vis1 \<noteq> []" by (rule sameOuterScopes_nonempty)
  then have "sameOuterScopes vis1 (bindAll [n] [Value (nextValue (builder vis)) (vtype vt)] vis1)"
    by (rule sameOuterScopes_bindAll)
  with 1 merged(4) show ?thesis by (auto intro: sameOuterScopes_trans)
qed

lemma sameOuterScopes_mergeBranches:
  "symbolTable vis \<noteq> [] \<Longrightarrow> sameOuterScopes vis (mergeBranches cond owT owE ns vis)"
proof (induction ns arbitrary: vis)
  case Nil
  then show ?case by (simp add: sameOuterScopes_refl)
next
  case (Cons n ns)
  from Cons.prems have 1: "sameOuterScopes vis (mergeName cond owT owE n vis)"
    by (rule sameOuterScopes_mergeName)
  then have "symbolTable (mergeName cond owT owE n vis) \<noteq> []"
    by (rule sameOuterScopes_nonempty)
  from Cons.IH [OF this] 1 show ?case
    by (auto intro: sameOuterScopes_trans)
qed

text \<open>A block that was opened and closed again leaves the scopes as they were.\<close>

lemma closed_block_scopes:
  assumes "sameOuterScopes (openScope vis1) v"
  shows "symbolTable (v\<lparr>symbolTable := popScope (symbolTable v)\<rparr>) = symbolTable vis1"
  using assms by (auto simp: sameOuterScopes_def symbolTable_openScope)

lemma visitStatement_scopes:
  "symbolTable vis \<noteq> [] \<Longrightarrow> visitStatement s vis = Inr vis' \<Longrightarrow> sameOuterScopes vis vis'"
  "symbolTable vis \<noteq> [] \<Longrightarrow> visitStatements ss vis = Inr vis' \<Longrightarrow> sameOuterScopes vis vis'"
  "visitElse e vis = Inr (ow, vis') \<Longrightarrow> symbolTable vis' = symbolTable vis"
proof (induction s vis and ss vis and e vis arbitrary: vis' and vis' and ow vis'
    rule: visitStatement_visitStatements_visitElse.induct)
  case (1 ss vis)
  then show ?case by simp
next
  case (2 e vis)
  from "2.prems"(2) obtain vs where "visitExpr e vis = Inr (vs, vis')"
    by (auto split: sum.splits)
  then have "appended vis vis'" by (rule appended_visitExpr(1))
  with "2.prems"(1) show ?case by (rule sameOuterScopes_appended)
next
  case (3 ns e vis)
  from "3.prems"(2) obtain vs vis1 where e: "visitExpr e vis = Inr (vs, vis1)"
    and v: "vis' = bindAll ns vs vis1"
    by (auto split: sum.splits if_splits)
  from e have "appended vis vis1" by (rule appended_visitExpr(1))
  with "3.prems"(1) have 1: "sameOuterScopes vis vis1" by (rule sameOuterScopes_appended)
  then have "symbolTable vis1 \<noteq> []" by (rule sameOuterScopes_nonempty)
  then have "sameOuterScopes vis1 (bindAll ns vs vis1)" by (rule sameOuterScopes_bindAll)
  with 1 v show ?case by (blast intro: sameOuterScopes_trans)
next
  case (4 c t e vis)
  from "4.prems"(2) obtain cond vis1 owThen vis2 owElse vis3 where
    c: "asCondition (asSingle (visitExpr c vis)) = Inr (cond, vis1)"
    and t: "closeScope (visitStatement t (openScope vis1)) = Inr (owThen, vis2)"
    and e: "visitElse e vis2 = Inr (owElse, vis3)"
    and m: "vis' = mergeBranches cond owThen owElse (remdups (map fst owThen @ map fst owElse)) vis3"
    by (auto split: sum.splits)
  from c have a: "appended vis vis1" by (rule appended_condition)
  from closeScope_Inr [OF t] obtain v where
    tv: "visitStatement t (openScope vis1) = Inr v"
    and v2: "vis2 = v\<lparr>symbolTable := popScope (symbolTable v)\<rparr>"
    by blast
  have "symbolTable (openScope vis1) \<noteq> []" by (simp add: symbolTable_openScope)
  from "4.IH"(1) [OF c refl this tv] have "sameOuterScopes (openScope vis1) v" .
  then have s2: "symbolTable vis2 = symbolTable vis1"
    unfolding v2 by (rule closed_block_scopes)
  from "4.IH"(2) [OF c refl t refl e] have s3: "symbolTable vis3 = symbolTable vis2" .
  from a s2 s3 have s: "symbolTable vis3 = symbolTable vis" by (simp add: appended_def)
  with "4.prems"(1) have "symbolTable vis3 \<noteq> []" by simp
  from sameOuterScopes_mergeBranches [OF this, of cond owThen owElse
      "remdups (map fst owThen @ map fst owElse)"] m s show ?case
    by (simp add: sameOuterScopes_def)
next
  case (5 c body vis)
  from "5.prems"(2) obtain cond vis1 ow vis2 where
    c: "asCondition (asSingle (visitExpr c vis)) = Inr (cond, vis1)"
    and t: "closeScope (visitStatement body (openScope vis1)) = Inr (ow, vis2)"
    and r: "vis' = emitLoop ''while'' [cond] None (loopCarried ow (symbolTable vis2)) vis2"
    by (auto split: sum.splits)
  from c have a: "appended vis vis1" by (rule appended_condition)
  from closeScope_Inr [OF t] obtain v where
    tv: "visitStatement body (openScope vis1) = Inr v"
    and v2: "vis2 = v\<lparr>symbolTable := popScope (symbolTable v)\<rparr>"
    by blast
  have "symbolTable (openScope vis1) \<noteq> []" by (simp add: symbolTable_openScope)
  from "5.IH" [OF c refl this tv] have "sameOuterScopes (openScope vis1) v" .
  then have s2: "symbolTable vis2 = symbolTable vis1"
    unfolding v2 by (rule closed_block_scopes)
  with a have s: "symbolTable vis2 = symbolTable vis" by (simp add: appended_def)
  with "5.prems"(1) have "symbolTable vis2 \<noteq> []" by simp
  from sameOuterScopes_emitLoop [OF this] r s show ?case
    by (simp add: sameOuterScopes_def)
next
  case (6 i lower upper step body vis)
  from "6.prems"(2) obtain lb vis1 ub vis2 st vis3 ow vis4 where
    l: "asSingle (visitExpr lower vis) = Inr (lb, vis1)"
    and u: "asSingle (visitExpr upper vis1) = Inr (ub, vis2)"
    and s: "asSingle (case step of None \<Rightarrow> defaultStep vis2 | Some e \<Rightarrow> visitExpr e vis2) = Inr (st, vis3)"
    and b: "closeScope (visitStatement body (bindAll [i] [lb] (openScope vis3))) = Inr (ow, vis4)"
    and r: "vis' = emitLoop ''for'' [lb, ub, st] (Some (StringAttr (stepDirection (builder vis4) st)))
                                (forCarried i lb ow (symbolTable vis4)) vis4"
    by (auto split: sum.splits)
  from l have a1: "appended vis vis1" by (rule appended_operand)
  from u have a2: "appended vis1 vis2" by (rule appended_operand)
  from s have a3: "appended vis2 vis3"
    by (cases step)
      (auto simp: defaultStep_def dest!: asSingle_Inr intro: appended_emitConstant appended_visitExpr(1))
  from closeScope_Inr [OF b] obtain v where
    tv: "visitStatement body (bindAll [i] [lb] (openScope vis3)) = Inr v"
    and v4: "vis4 = v\<lparr>symbolTable := popScope (symbolTable v)\<rparr>"
    by blast
  have o: "symbolTable (openScope vis3) \<noteq> []" by (simp add: symbolTable_openScope)
  then have ob: "sameOuterScopes (openScope vis3) (bindAll [i] [lb] (openScope vis3))"
    by (rule sameOuterScopes_bindAll)
  then have "symbolTable (bindAll [i] [lb] (openScope vis3)) \<noteq> []"
    by (rule sameOuterScopes_nonempty)
  from "6.IH" [OF l refl u refl s refl this tv]
  have "sameOuterScopes (bindAll [i] [lb] (openScope vis3)) v" .
  with ob have "sameOuterScopes (openScope vis3) v" by (rule sameOuterScopes_trans)
  then have s4: "symbolTable vis4 = symbolTable vis3"
    unfolding v4 by (rule closed_block_scopes)
  with a1 a2 a3 have st: "symbolTable vis4 = symbolTable vis" by (simp add: appended_def)
  with "6.prems"(1) have "symbolTable vis4 \<noteq> []" by simp
  from sameOuterScopes_emitLoop [OF this] r st show ?case
    by (simp add: sameOuterScopes_def)
next
  case (7 vis)
  then show ?case by (cases "symbolTable vis") (auto simp: sameOuterScopes_def)
next
  case (8 s ss vis)
  from "8.prems"(2) obtain vis1 where s: "visitStatement s vis = Inr vis1"
    and r: "visitStatements ss vis1 = Inr vis'"
    by (auto split: sum.splits)
  from "8.IH"(1) [OF "8.prems"(1) s] have 1: "sameOuterScopes vis vis1" .
  then have "symbolTable vis1 \<noteq> []" by (rule sameOuterScopes_nonempty)
  from "8.IH"(2) [OF s this r] have "sameOuterScopes vis1 vis'" .
  with 1 show ?case by (rule sameOuterScopes_trans)
next
  case (9 vis)
  then show ?case by simp
next
  case (10 s vis)
  from "10.prems" have t: "closeScope (visitStatement s (openScope vis)) = Inr (ow, vis')"
    by simp
  from closeScope_Inr [OF t] obtain v where
    tv: "visitStatement s (openScope vis) = Inr v"
    and v2: "vis' = v\<lparr>symbolTable := popScope (symbolTable v)\<rparr>"
    by blast
  have "symbolTable (openScope vis) \<noteq> []" by (simp add: symbolTable_openScope)
  from "10.IH" [OF this tv] have "sameOuterScopes (openScope vis) v" .
  then show ?case unfolding v2 by (rule closed_block_scopes)
qed

lemma lookup_bindAll_single:
  "lookup k (symbolTable (bindAll [h] [m] vis)) = (if k = h then Inr m else lookup k (symbolTable vis))"
  by (simp add: symbolTable_bindAll lookup_declareVar)

lemma mergeName_lookup_other:
  assumes "k \<noteq> n"
  shows "lookup k (symbolTable (mergeName cond owT owE n vis)) = lookup k (symbolTable vis)"
proof (cases rule: mergeName_cases [of cond owT owE n vis])
  case skipped
  then show ?thesis by simp
next
  case (merged vt ve vis1)
  from merged(4) assms symbolTable_emit [OF merged(3)] show ?thesis
    by (simp add: lookup_bindAll_single)
qed

lemma mergeName_block:
  "\<exists>ops. block (builder (mergeName cond owT owE n vis)) = block (builder vis) @ ops"
proof (cases rule: mergeName_cases [of cond owT owE n vis])
  case skipped
  then show ?thesis by simp
next
  case (merged vt ve vis1)
  from appended_emit [OF merged(3)] merged(4) show ?thesis
    by (auto simp: builder_bindAll dest: appended_block)
qed

lemma mergeBranches_lookup_other:
  "k \<notin> set ns \<Longrightarrow>
     lookup k (symbolTable (mergeBranches cond owT owE ns vis)) = lookup k (symbolTable vis)"
  by (induction ns arbitrary: vis) (simp_all add: mergeName_lookup_other)

lemma mergeBranches_block:
  "\<exists>ops. block (builder (mergeBranches cond owT owE ns vis)) = block (builder vis) @ ops"
proof (induction ns arbitrary: vis)
  case Nil
  show ?case by simp
next
  case (Cons h ns)
  obtain ops1 where "block (builder (mergeName cond owT owE h vis)) = block (builder vis) @ ops1"
    using mergeName_block by blast
  moreover obtain ops2 where
    "block (builder (mergeBranches cond owT owE ns (mergeName cond owT owE h vis)))
       = block (builder (mergeName cond owT owE h vis)) @ ops2"
    using Cons by blast
  ultimately show ?case by simp
qed

lemma branchValue_cong:
  "lookup n st' = lookup n st \<Longrightarrow> branchValue ow n st' = branchValue ow n st"
  by (simp add: branchValue_def split: option.splits)

text \<open>A name with a value on both paths is bound to the result of its merge operation.\<close>

lemma mergeBranches_merged:
  "distinct ns \<Longrightarrow> n \<in> set ns \<Longrightarrow>
   branchValue owT n (symbolTable vis) = Inr vt \<Longrightarrow>
   branchValue owE n (symbolTable vis) = Inr ve \<Longrightarrow>
     \<exists>m. lookup n (symbolTable (mergeBranches cond owT owE ns vis)) = Inr m
       \<and> Operation ''merge'' [vt, ve] [m] (Some (PathOriginAttr cond)) 0
           \<in> set (block (builder (mergeBranches cond owT owE ns vis)))"
proof (induction ns arbitrary: vis)
  case Nil
  then show ?case by simp
next
  case (Cons h ns)
  let ?vis1 = "mergeName cond owT owE h vis"
  from Cons.prems(1) have d: "h \<notin> set ns" "distinct ns" by auto
  show ?case
  proof (cases "n = h")
    case True
    show ?thesis
    proof (cases rule: mergeName_cases [of cond owT owE h vis])
      case skipped
      with True Cons.prems(3,4) show ?thesis by auto
    next
      case (merged vt' ve' vis1)
      let ?m = "Value (nextValue (builder vis)) (vtype vt)"
      from merged(1,2) True Cons.prems(3,4) have eq: "vt' = vt" "ve' = ve" by simp_all
      from merged(4) have "lookup h (symbolTable ?vis1) = Inr ?m"
        by (simp add: lookup_bindAll_single eq)
      with mergeBranches_lookup_other [OF d(1), of cond owT owE ?vis1]
      have l: "lookup h (symbolTable (mergeBranches cond owT owE ns ?vis1)) = Inr ?m"
        by simp
      from merged(3) have "Operation ''merge'' [vt, ve] [?m] (Some (PathOriginAttr cond)) 0
          \<in> set (block (builder vis1))"
        by (auto simp: emit_eq freshValues_single eq)
      with merged(4) have "Operation ''merge'' [vt, ve] [?m] (Some (PathOriginAttr cond)) 0
          \<in> set (block (builder ?vis1))"
        by (simp add: builder_bindAll)
      moreover obtain ops where
        "block (builder (mergeBranches cond owT owE ns ?vis1)) = block (builder ?vis1) @ ops"
        using mergeBranches_block by blast
      ultimately have "Operation ''merge'' [vt, ve] [?m] (Some (PathOriginAttr cond)) 0
          \<in> set (block (builder (mergeBranches cond owT owE ns ?vis1)))"
        by simp
      with True l show ?thesis by auto
    qed
  next
    case False
    with Cons.prems(2) have n: "n \<in> set ns" by simp
    from False have same: "lookup n (symbolTable ?vis1) = lookup n (symbolTable vis)"
      by (simp add: mergeName_lookup_other)
    from Cons.prems(3,4) have "branchValue owT n (symbolTable ?vis1) = Inr vt"
      and "branchValue owE n (symbolTable ?vis1) = Inr ve"
      by (simp_all add: branchValue_cong [OF same])
    from Cons.IH [OF d(2) n this] show ?thesis by simp
  qed
qed

text \<open>A name without a value on one of the paths is left as it was.\<close>

lemma mergeBranches_skipped:
  "branchValue owT n (symbolTable vis) = Inl x \<or> branchValue owE n (symbolTable vis) = Inl x \<Longrightarrow>
     lookup n (symbolTable (mergeBranches cond owT owE ns vis)) = lookup n (symbolTable vis)"
proof (induction ns arbitrary: vis)
  case Nil
  show ?case by simp
next
  case (Cons h ns)
  let ?vis1 = "mergeName cond owT owE h vis"
  show ?case
  proof (cases "n = h")
    case True
    from Cons.prems True have "?vis1 = vis"
      by (auto simp: mergeName_def split: sum.splits)
    with Cons.IH [OF Cons.prems] show ?thesis by simp
  next
    case False
    then have same: "lookup n (symbolTable ?vis1) = lookup n (symbolTable vis)"
      by (simp add: mergeName_lookup_other)
    from Cons.prems have
      "branchValue owT n (symbolTable ?vis1) = Inl x \<or> branchValue owE n (symbolTable ?vis1) = Inl x"
      by (simp add: branchValue_cong [OF same])
    from Cons.IH [OF this] same show ?thesis by simp
  qed
qed

lemma if_scopes:
  assumes c: "asCondition (asSingle (visitExpr c vis)) = Inr (cond, vis1)"
    and t: "closeScope (visitStatement t (openScope vis1)) = Inr (owThen, vis2)"
    and e: "visitElse e vis2 = Inr (owElse, vis3)"
  shows "symbolTable vis3 = symbolTable vis"
proof -
  from c have a: "appended vis vis1" by (rule appended_condition)
  from closeScope_Inr [OF t] obtain v where
    tv: "visitStatement t (openScope vis1) = Inr v"
    and v2: "vis2 = v\<lparr>symbolTable := popScope (symbolTable v)\<rparr>"
    by blast
  have "symbolTable (openScope vis1) \<noteq> []" by (simp add: symbolTable_openScope)
  from visitStatement_scopes(1) [OF this tv] have "sameOuterScopes (openScope vis1) v" .
  then have s2: "symbolTable vis2 = symbolTable vis1"
    unfolding v2 by (rule closed_block_scopes)
  from visitStatement_scopes(3) [OF e] have "symbolTable vis3 = symbolTable vis2" .
  with a s2 show ?thesis by (simp add: appended_def)
qed

text \<open>
  C4. Whenever the condition and the branches of an if statement can be lowered, the
  statement can. Afterwards a name that was bound before the statement and that only
  the then-branch rebound is bound to the result of a merge operation: on the path
  through the then-branch the merge yields the value the name had at the end of that
  branch, on the other path the value the name had before the statement. For a name
  that only the else-branch rebound the two roles are exchanged. A name that was not
  bound before and that is not bound in both branches stays unbound.
\<close>

theorem C4_if_merge:
  assumes c: "asCondition (asSingle (visitExpr c vis)) = Inr (cond, vis1)"
    and t: "closeScope (visitStatement t (openScope vis1)) = Inr (owThen, vis2)"
    and e: "(case e of
               None \<Rightarrow> Inr ([], vis2)
             | Some s \<Rightarrow> closeScope (visitStatement s (openScope vis2))) = Inr (owElse, vis3)"
  shows "\<exists>vis'. visitStatement (IfStatement c t e) vis = Inr vis'
    \<and> (\<forall>n vb v0. map_of owThen n = Some vb \<and> map_of owElse n = None
           \<and> lookup n (symbolTable vis) = Inr v0 \<longrightarrow>
         (\<exists>m op. lookup n (symbolTable vis') = Inr m
            \<and> op \<in> set (block (builder vis')) \<and> opName op = ''merge''
            \<and> operands op = [vb, v0] \<and> results op = [m]
            \<and> attribute op = Some (PathOriginAttr cond)
            \<and> mergeSelect True op = [vb] \<and> mergeSelect False op = [v0]))
    \<and> (\<forall>n vb v0. map_of owThen n = None \<and> map_of owElse n = Some vb
           \<and> lookup n (symbolTable vis) = Inr v0 \<longrightarrow>
         (\<exists>m op. lookup n (symbolTable vis') = Inr m
            \<and> op \<in> set (block (builder vis')) \<and> opName op = ''merge''
            \<and> operands op = [v0, vb] \<and> results op = [m]
            \<and> attribute op = Some (PathOriginAttr cond)
            \<and> mergeSelect True op = [v0] \<and> mergeSelect False op = [vb]))
    \<and> (\<forall>n x. (map_of owThen n = None \<or> map_of owElse n = None)
           \<and> lookup n (symbolTable vis) = Inl x \<longrightarrow>
         lookup n (symbolTable vis') = Inl UnknownVariable)"
proof -
  let ?ns = "remdups (map fst owThen @ map fst owElse)"
  let ?vis' = "mergeBranches cond owThen owElse ?ns vis3"
  from e have e': "visitElse e vis2 = Inr (owElse, vis3)"
    by (cases e) simp_all
  from c t e' have run: "visitStatement (IfStatement c t e) vis = Inr ?vis'"
    by simp
  have st: "symbolTable vis3 = symbolTable vis" using c t e' by (rule if_scopes)
  have merged: "\<exists>m op. lookup n (symbolTable ?vis') = Inr m
            \<and> op \<in> set (block (builder ?vis')) \<and> opName op = ''merge''
            \<and> operands op = [vt, ve] \<and> results op = [m]
            \<and> attribute op = Some (PathOriginAttr cond)
            \<and> mergeSelect True op = [vt] \<and> mergeSelect False op = [ve]"
    if n: "n \<in> set ?ns"
      and bt: "branchValue owThen n (symbolTable vis) = Inr vt"
      and be: "branchValue owElse n (symbolTable vis) = Inr ve" for n vt ve
  proof -
    have "distinct ?ns" by simp
    from mergeBranches_merged [OF this n, of owThen vis3 vt owElse ve cond] bt be st
    obtain m where
      l: "lookup n (symbolTable ?vis') = Inr m"
      and o: "Operation ''merge'' [vt, ve] [m] (Some (PathOriginAttr cond)) 0 \<in> set (block (builder ?vis'))"
      by auto
    let ?op = "Operation ''merge'' [vt, ve] [m] (Some (PathOriginAttr cond)) 0"
    have "opName ?op = ''merge''" "operands ?op = [vt, ve]" "results ?op = [m]"
      "attribute ?op = Some (PathOriginAttr cond)"
      "mergeSelect True ?op = [vt]" "mergeSelect False ?op = [ve]"
      by (simp_all add: mergeSelect_def)
    with l o show ?thesis by blast
  qed
  have thenOnly: "\<exists>m op. lookup n (symbolTable ?vis') = Inr m
            \<and> op \<in> set (block (builder ?vis')) \<and> opName op = ''merge''
            \<and> operands op = [vb, v0] \<and> results op = [m]
            \<and> attribute op = Some (PathOriginAttr cond)
            \<and> mergeSelect True op = [vb] \<and> mergeSelect False op = [v0]"
    if "map_of owThen n = Some vb \<and> map_of owElse n = None \<and> lookup n (symbolTable vis) = Inr v0"
    for n vb v0
  proof -
    from that have "n \<in> set ?ns" by (auto dest!: map_of_SomeD intro: rev_image_eqI)
    moreover from that have "branchValue owThen n (symbolTable vis) = Inr vb"
      and "branchValue owElse n (symbolTable vis) = Inr v0"
      by (simp_all add: branchValue_def)
    ultimately show ?thesis by (rule merged)
  qed
  have elseOnly: "\<exists>m op. lookup n (symbolTable ?vis') = Inr m
            \<and> op \<in> set (block (builder ?vis')) \<and> opName op = ''merge''
            \<and> operands op = [v0, vb] \<and> results op = [m]
            \<and> attribute op = Some (PathOriginAttr cond)
            \<and> mergeSelect True op = [v0] \<and> mergeSelect False op = [vb]"
    if "map_of owThen n = None \<and> map_of owElse n = Some vb \<and> lookup n (symbolTable vis) = Inr v0"
    for n vb v0
  proof -
    from that have "n \<in> set ?ns" by (auto dest!: map_of_SomeD intro: rev_image_eqI)
    moreover from that have "branchValue owThen n (symbolTable vis) = Inr v0"
      and "branchValue owElse n (symbolTable vis) = Inr vb"
      by (simp_all add: branchValue_def)
    ultimately show ?thesis by (rule merged)
  qed
  have discarded: "lookup n (symbolTable ?vis') = Inl UnknownVariable"
    if "(map_of owThen n = None \<or> map_of owElse n = None) \<and> lookup n (symbolTable vis) = Inl x"
    for n x
  proof -
    from that have x: "x = UnknownVariable" by (auto dest: lookup_error)
    from that st have
      "branchValue owThen n (symbolTable vis3) = Inl x \<or> branchValue owElse n (symbolTable vis3) = Inl x"
      by (auto simp: branchValue_def)
    from mergeBranches_skipped [OF this, of cond ?ns] that st x show ?thesis by simp
  qed
  from run thenOnly elseOnly discarded show ?thesis by blast
qed

lemmas scope_simps = asCondition_def closeScope_def openScope_def pushScope_def bindAll_def
  branchValue_def mergeName_def

lemma exampleIf_run:
  "visitStatement exampleIf exampleVisitor =
     Inr \<lparr>builder = \<lparr>block = exampleBlock, nextValue = 8\<rparr>, symbolTable = exampleScopes,
          builtins = exampleBuiltins, args = Map.empty\<rparr>"
  by (simp add: exampleIf_def exampleThen_def exampleElse_def exampleVisitor_def exampleBlock_def
      exampleScopes_def run_simps scope_simps)

theorem C4_if_merge_witness:
  "\<exists>vis'. visitStatement exampleIf exampleVisitor = Inr vis'
     \<and> block (builder vis') = exampleBlock
     \<and> symbolTable vis' = exampleScopes
     \<and> lookup ''x'' (symbolTable exampleVisitor) = Inr (Value 0 (ScalarType SignedInt))
     \<and> lookup ''y'' (symbolTable exampleVisitor) = Inr (Value 1 (ScalarType SignedInt))
     \<and> (\<exists>m op. lookup ''x'' (symbolTable vis') = Inr m
           \<and> op \<in> set (block (builder vis')) \<and> opName op = ''merge'' \<and> results op = [m]
           \<and> mergeSelect True op = [Value 3 (ScalarType SignedInt)]
           \<and> mergeSelect False op = [Value 0 (ScalarType SignedInt)])
     \<and> (\<exists>m op. lookup ''y'' (symbolTable vis') = Inr m
           \<and> op \<in> set (block (builder vis')) \<and> opName op = ''merge'' \<and> results op = [m]
           \<and> mergeSelect True op = [Value 1 (ScalarType SignedInt)]
           \<and> mergeSelect False op = [Value 5 (ScalarType SignedInt)])
     \<and> lookup ''tmp'' (symbolTable vis') = Inl UnknownVariable"
proof -
  let ?final = "\<lparr>builder = \<lparr>block = exampleBlock, nextValue = 8\<rparr>, symbolTable = exampleScopes,
          builtins = exampleBuiltins, args = Map.empty\<rparr>"
  let ?b1 = "[Operation ''daphne.constant'' [] [Value 0 (ScalarType SignedInt)] (Some (IntegerAttr 5)) 0,
      Operation ''daphne.constant'' [] [Value 1 (ScalarType SignedInt)] (Some (IntegerAttr 6)) 0,
      Operation ''daphne.constant'' [] [Value 2 (ScalarType Boolean)] (Some (BoolAttr True)) 0]"
  let ?b2 = "?b1 @
     [Operation ''daphne.constant'' [] [Value 3 (ScalarType SignedInt)] (Some (IntegerAttr 1)) 0,
      Operation ''daphne.constant'' [] [Value 4 (ScalarType SignedInt)] (Some (IntegerAttr 3)) 0]"
  let ?b3 = "?b2 @
     [Operation ''daphne.constant'' [] [Value 5 (ScalarType SignedInt)] (Some (IntegerAttr 2)) 0]"
  let ?v1 = "exampleVisitor\<lparr>builder := \<lparr>block = ?b1, nextValue = 3\<rparr>\<rparr>"
  let ?v2 = "exampleVisitor\<lparr>builder := \<lparr>block = ?b2, nextValue = 5\<rparr>\<rparr>"
  let ?v3 = "exampleVisitor\<lparr>builder := \<lparr>block = ?b3, nextValue = 6\<rparr>\<rparr>"
  let ?owThen = "[(''x'', Value 3 (ScalarType SignedInt)), (''tmp'', Value 4 (ScalarType SignedInt))]"
  let ?owElse = "[(''y'', Value 5 (ScalarType SignedInt))]"
  have c: "asCondition (asSingle (visitExpr (LiteralExpr (BoolLiteral True)) exampleVisitor))
      = Inr (Value 2 (ScalarType Boolean), ?v1)"
    by (simp add: exampleVisitor_def run_simps scope_simps)
  have t: "closeScope (visitStatement exampleThen (openScope ?v1)) = Inr (?owThen, ?v2)"
    by (simp add: exampleThen_def exampleVisitor_def run_simps scope_simps)
  have e: "(case Some exampleElse of
               None \<Rightarrow> Inr ([], ?v2)
             | Some s \<Rightarrow> closeScope (visitStatement s (openScope ?v2))) = Inr (?owElse, ?v3)"
    by (simp add: exampleElse_def exampleVisitor_def run_simps scope_simps)
  from C4_if_merge [OF c t e] obtain vis' where
    run: "visitStatement (IfStatement (LiteralExpr (BoolLiteral True)) exampleThen (Some exampleElse))
            exampleVisitor = Inr vis'"
    and thenOnly: "\<forall>n vb v0. map_of ?owThen n = Some vb \<and> map_of ?owElse n = None
           \<and> lookup n (symbolTable exampleVisitor) = Inr v0 \<longrightarrow>
         (\<exists>m op. lookup n (symbolTable vis') = Inr m
            \<and> op \<in> set (block (builder vis')) \<and> opName op = ''merge''
            \<and> operands op = [vb, v0] \<and> results op = [m]
            \<and> attribute op = Some (PathOriginAttr (Value 2 (ScalarType Boolean)))
            \<and> mergeSelect True op = [vb] \<and> mergeSelect False op = [v0])"
    and elseOnly: "\<forall>n vb v0. map_of ?owThen n = None \<and> map_of ?owElse n = Some vb
           \<and> lookup n (symbolTable exampleVisitor) = Inr v0 \<longrightarrow>
         (\<exists>m op. lookup n (symbolTable vis') = Inr m
            \<and> op \<in> set (block (builder vis')) \<and> opName op = ''merge''
            \<and> operands op = [v0, vb] \<and> results op = [m]
            \<and> attribute op = Some (PathOriginAttr (Value 2 (ScalarType Boolean)))
            \<and> mergeSelect True op = [v0] \<and> mergeSelect False op = [vb])"
    and discarded: "\<forall>n x. (map_of ?owThen n = None \<or> map_of ?owElse n = None)
           \<and> lookup n (symbolTable exampleVisitor) = Inl x \<longrightarrow>
         lookup n (symbolTable vis') = Inl UnknownVariable"
    by blast
  from run exampleIf_run have v: "vis' = ?final" by (simp add: exampleIf_def)
  have lx: "lookup ''x'' (symbolTable exampleVisitor) = Inr (Value 0 (ScalarType SignedInt))"
    and ly: "lookup ''y'' (symbolTable exampleVisitor) = Inr (Value 1 (ScalarType SignedInt))"
    and lt: "lookup ''tmp'' (symbolTable exampleVisitor) = Inl UnknownVariable"
    by (simp_all add: exampleVisitor_def)
  from thenOnly [rule_format, of "''x''" "Value 3 (ScalarType SignedInt)" "Value 0 (ScalarType SignedInt)"] lx
  have x: "\<exists>m op. lookup ''x'' (symbolTable vis') = Inr m
           \<and> op \<in> set (block (builder vis')) \<and> opName op = ''merge'' \<and> results op = [m]
           \<and> mergeSelect True op = [Value 3 (ScalarType SignedInt)]
           \<and> mergeSelect False op = [Value 0 (ScalarType SignedInt)]"
    by auto
  from elseOnly [rule_format, of "''y''" "Value 5 (ScalarType SignedInt)" "Value 1 (ScalarType SignedInt)"] ly
  have y: "\<exists>m op. lookup ''y'' (symbolTable vis') = Inr m
           \<and> op \<in> set (block (builder vis')) \<and> opName op = ''merge'' \<and> results op = [m]
           \<and> mergeSelect True op = [Value 1 (ScalarType SignedInt)]
           \<and> mergeSelect False op = [Value 5 (ScalarType SignedInt)]"
    by auto
  from discarded [rule_format, of "''tmp''" UnknownVariable] lt
  have tmp: "lookup ''tmp'' (symbolTable vis') = Inl UnknownVariable"
    by simp
  have bl: "block (builder vis') = exampleBlock" and sc: "symbolTable vis' = exampleScopes"
    by (simp_all add: v)
  from run have run': "visitStatement exampleIf exampleVisitor = Inr vis'"
    by (simp add: exampleIf_def)
  from run' bl sc lx ly x y tmp show ?thesis by blast
qed

end
